theory Spec2Isabelle
  imports Complex_Main
begin

section \<open>JavaScript values used by the image pipeline\<close>

text \<open>
  A \<open>Buffer\<close> is its byte sequence; \<open>buffer.length\<close> is the length of the list.
  A thrown JavaScript error is a value carrying its \<open>message\<close>; an \<open>async\<close> function
  of the source is a function into \<open>error + 'a\<close>, \<open>Inl\<close> being the rejected promise.
\<close>

type_synonym buffer = "nat list"

datatype error = Error (message: string)

text \<open>
  A JavaScript number that may be \<open>undefined\<close> is a \<open>nat option\<close>; \<open>undefined\<close>,
  \<open>NaN\<close> (both \<open>None\<close>) and \<open>0\<close> are falsy. \<open>x || d\<close> on numbers and on strings
  (the empty string is falsy):
\<close>

fun or_num :: "nat option \<Rightarrow> nat \<Rightarrow> nat" where
  "or_num None d = d"
| "or_num (Some n) d = (if n = 0 then d else n)"

fun or_str :: "string option \<Rightarrow> string \<Rightarrow> string" where
  "or_str None d = d"
| "or_str (Some s) d = (if s = [] then d else s)"

text \<open>Decimal rendering of a non-negative integer, as a template literal prints it.\<close>

definition digit_char :: "nat \<Rightarrow> char" where
  "digit_char d = ''0123456789abcdef'' ! d"

fun show_nat :: "nat \<Rightarrow> string" where
  "show_nat n = (if n < 10 then [digit_char n] else show_nat (n div 10) @ [digit_char (n mod 10)])"

declare show_nat.simps [simp del]

text \<open>\<open>Array.prototype.join\<close> on an array of strings.\<close>

fun join :: "string \<Rightarrow> string list \<Rightarrow> string" where
  "join sep [] = []"
| "join sep [x] = x"
| "join sep (x # y # ys) = x @ sep @ join sep (y # ys)"

text \<open>
  \<open>(m / (1024 * 1024)).toFixed(2)\<close> for a non-negative integer \<open>m\<close>. Dividing by
  \<open>2^20\<close> is exact in binary floating point, and \<open>toFixed(2)\<close> picks the integer \<open>n\<close>
  with \<open>n / 100\<close> closest to the quotient, the larger one on a tie; so
  \<open>n = \<lfloor>100 m / 2^20 + 1/2\<rfloor>\<close>, printed with two decimals.
\<close>

definition toFixed2_MB :: "nat \<Rightarrow> string" where
  "toFixed2_MB m =
     (let n = (200 * m + 1048576) div 2097152
      in show_nat (n div 100) @ ''.'' @ [digit_char (n mod 100 div 10), digit_char (n mod 10)])"


section \<open>The image codec (sharp) as a parameter\<close>

text \<open>
  \<open>sharp.Metadata\<close>: the fields the service reads, each possibly \<open>undefined\<close>.
\<close>

record metadata =
  md_width :: "nat option"
  md_height :: "nat option"
  md_format :: "string option"

datatype fit = Cover | Contain | Fill | Inside | Outside

text \<open>
  A configured sharp instance: the input, the \<open>resize(width, height, {fit, position})\<close>
  call, and the encoder selected by \<open>.jpeg/.png/.webp({quality})\<close>, if any.
\<close>

record pipeline =
  pl_input :: buffer
  pl_width :: nat
  pl_height :: nat
  pl_fit :: fit
  pl_position :: string
  pl_encoder :: "(string \<times> nat) option"

text \<open>
  The library itself is not part of the repository; its three entry points are
  parameters. \<open>sharp_stats\<close> gives the per-channel means of \<open>stats().channels\<close>,
  finite numbers taken as reals.
  An error the library throws while the instance is configured (a bad width, a bad
  quality) rejects the enclosing \<open>async\<close> function exactly as a failing \<open>toBuffer\<close>
  does, so both are outcomes of \<open>sharp_toBuffer\<close>.
\<close>

record sharp_lib =
  sharp_metadata :: "buffer \<Rightarrow> error + metadata"
  sharp_stats :: "buffer \<Rightarrow> error + real list"
  sharp_toBuffer :: "pipeline \<Rightarrow> error + buffer"


section \<open>ImageProcessingService\<close>

record resolution_config =
  rc_name :: string
  rc_width :: nat
  rc_height :: nat

record processed_image =
  pi_buffer :: buffer
  pi_width :: nat
  pi_height :: nat
  pi_format :: string
  pi_size :: nat

definition RESOLUTIONS :: "resolution_config list" where
  "RESOLUTIONS =
    [\<lparr>rc_name = ''1080p'', rc_width = 1920, rc_height = 1080\<rparr>,
     \<lparr>rc_name = ''1440p'', rc_width = 2560, rc_height = 1440\<rparr>,
     \<lparr>rc_name = ''4K'', rc_width = 3840, rc_height = 2160\<rparr>,
     \<lparr>rc_name = ''5K'', rc_width = 5120, rc_height = 2880\<rparr>,
     \<lparr>rc_name = ''Mobile HD'', rc_width = 1080, rc_height = 1920\<rparr>,
     \<lparr>rc_name = ''Mobile 2K'', rc_width = 1440, rc_height = 2560\<rparr>,
     \<lparr>rc_name = ''Tablet'', rc_width = 1536, rc_height = 2048\<rparr>,
     \<lparr>rc_name = ''Thumbnail'', rc_width = 400, rc_height = 300\<rparr>,
     \<lparr>rc_name = ''Medium'', rc_width = 800, rc_height = 600\<rparr>]"

subsection \<open>validate\<close>

record validate_options =
  maxWidth :: "nat option"
  maxHeight :: "nat option"
  maxSize :: "nat option"
  allowedFormats :: "string list option"

record validation =
  valid :: bool
  errors :: "string list"

text \<open>\<open>options?.field\<close>: \<open>undefined\<close> when \<open>options\<close> itself is.\<close>

definition opt_field :: "('o \<Rightarrow> 'a option) \<Rightarrow> 'o option \<Rightarrow> 'a option" where
  "opt_field f options = (case options of None \<Rightarrow> None | Some opts \<Rightarrow> f opts)"

text \<open>The four checks, each pushing at most one message onto \<open>errors\<close>.\<close>

definition check_format :: "validate_options option \<Rightarrow> metadata \<Rightarrow> string list \<Rightarrow> string list" where
  "check_format options md errs =
     (case opt_field allowedFormats options of
        None \<Rightarrow> errs
      | Some fs \<Rightarrow>
          if or_str (md_format md) [] \<notin> set fs
          then errs @ [''Invalid format. Allowed: '' @ join '', '' fs]
          else errs)"

definition check_width :: "validate_options option \<Rightarrow> metadata \<Rightarrow> string list \<Rightarrow> string list" where
  "check_width options md errs =
     (case (opt_field maxWidth options, md_width md) of
        (Some bound, Some w) \<Rightarrow>
          if bound \<noteq> 0 \<and> w \<noteq> 0 \<and> w > bound
          then errs @ [''Width exceeds maximum of '' @ show_nat bound @ ''px'']
          else errs
      | _ \<Rightarrow> errs)"

definition check_height :: "validate_options option \<Rightarrow> metadata \<Rightarrow> string list \<Rightarrow> string list" where
  "check_height options md errs =
     (case (opt_field maxHeight options, md_height md) of
        (Some bound, Some h) \<Rightarrow>
          if bound \<noteq> 0 \<and> h \<noteq> 0 \<and> h > bound
          then errs @ [''Height exceeds maximum of '' @ show_nat bound @ ''px'']
          else errs
      | _ \<Rightarrow> errs)"

definition check_size :: "validate_options option \<Rightarrow> buffer \<Rightarrow> string list \<Rightarrow> string list" where
  "check_size options imageBuffer errs =
     (case opt_field maxSize options of
        Some bound \<Rightarrow>
          if bound \<noteq> 0 \<and> length imageBuffer > bound
          then errs @ [''File size exceeds maximum of '' @ toFixed2_MB bound @ ''MB'']
          else errs
      | None \<Rightarrow> errs)"

text \<open>
  The body of the \<open>try\<close> block: only \<open>sharp(imageBuffer).metadata()\<close>, its first
  statement, can throw, and it does so before anything is pushed.
\<close>

definition validate_try :: "sharp_lib \<Rightarrow> buffer \<Rightarrow> validate_options option \<Rightarrow> error + validation" where
  "validate_try sh imageBuffer options =
     (case sharp_metadata sh imageBuffer of
        Inl e \<Rightarrow> Inl e
      | Inr md \<Rightarrow>
          (let errs = check_size options imageBuffer
                        (check_height options md
                          (check_width options md
                            (check_format options md [])))
           in Inr \<lparr>valid = (length errs = 0), errors = errs\<rparr>))"

text \<open>\<open>validate\<close>: the \<open>catch\<close> pushes onto the list as it stood at the throw, which
  is the empty list.\<close>

definition validate :: "sharp_lib \<Rightarrow> buffer \<Rightarrow> validate_options option \<Rightarrow> error + validation" where
  "validate sh imageBuffer options =
     (case validate_try sh imageBuffer options of
        Inl e \<Rightarrow> Inr \<lparr>valid = False, errors = [] @ [''Invalid image file'']\<rparr>
      | Inr r \<Rightarrow> Inr r)"


subsection \<open>resize\<close>

record resize_options =
  ro_quality :: "nat option"
  ro_format :: "string option"
  ro_fit :: "fit option"

text \<open>
  \<open>format\<close> is typed \<open>'jpeg' | 'png' | 'webp'\<close> in the source; the type is erased at
  run time, so the model takes any string and follows the \<open>if / else if\<close> chain, which
  has no final \<open>else\<close>.
\<close>

definition select_encoder :: "string \<Rightarrow> nat \<Rightarrow> pipeline \<Rightarrow> pipeline" where
  "select_encoder fmt q sharpInstance =
     (if fmt = ''jpeg'' then sharpInstance\<lparr>pl_encoder := Some (''jpeg'', q)\<rparr>
      else if fmt = ''png'' then sharpInstance\<lparr>pl_encoder := Some (''png'', q)\<rparr>
      else if fmt = ''webp'' then sharpInstance\<lparr>pl_encoder := Some (''webp'', q)\<rparr>
      else sharpInstance)"

text \<open>The second half of \<open>resize\<close>: encode, read the result's metadata back, assemble.\<close>

definition encode_and_measure :: "sharp_lib \<Rightarrow> pipeline \<Rightarrow> string \<Rightarrow> error + processed_image" where
  "encode_and_measure sh sharpInstance fmt =
     (case sharp_toBuffer sh sharpInstance of
        Inl e \<Rightarrow> Inl e
      | Inr buf \<Rightarrow>
          (case sharp_metadata sh buf of
             Inl e \<Rightarrow> Inl e
           | Inr md \<Rightarrow>
               Inr \<lparr>pi_buffer = buf,
                    pi_width = or_num (md_width md) (pl_width sharpInstance),
                    pi_height = or_num (md_height md) (pl_height sharpInstance),
                    pi_format = or_str (md_format md) fmt,
                    pi_size = length buf\<rparr>))"

definition resize ::
  "sharp_lib \<Rightarrow> buffer \<Rightarrow> nat \<Rightarrow> nat \<Rightarrow> resize_options option \<Rightarrow> error + processed_image" where
  "resize sh imageBuffer width height options =
     (let q = or_num (opt_field ro_quality options) 90;
          fmt = or_str (opt_field ro_format options) ''jpeg'';
          ft = (case opt_field ro_fit options of None \<Rightarrow> Cover | Some f \<Rightarrow> f);
          sharpInstance = select_encoder fmt q
            \<lparr>pl_input = imageBuffer, pl_width = width, pl_height = height,
             pl_fit = ft, pl_position = ''center'', pl_encoder = None\<rparr>
      in encode_and_measure sh sharpInstance fmt)"

definition getMetadata :: "sharp_lib \<Rightarrow> buffer \<Rightarrow> error + metadata" where
  "getMetadata sh imageBuffer = sharp_metadata sh imageBuffer"

definition thumbnail_options :: resize_options where
  "thumbnail_options = \<lparr>ro_quality = Some 80, ro_format = Some ''jpeg'', ro_fit = Some Cover\<rparr>"

definition medium_options :: resize_options where
  "medium_options = \<lparr>ro_quality = Some 85, ro_format = Some ''jpeg'', ro_fit = Some Cover\<rparr>"


section \<open>Effects: the process state and the trace\<close>

datatype provider = Cloudinary | S3

text \<open>A storage service object: its class and its identity (the order of construction).\<close>

record service =
  svc_kind :: provider
  svc_id :: nat

record upload_result =
  url :: string
  publicId :: "string option"

record wallpaper_data =
  wp_title :: "string option"
  wp_slug :: string
  wp_description :: "string option"
  wp_original_url :: string
  wp_thumbnail_url :: string
  wp_medium_url :: string
  wp_primary_color :: string
  wp_tags :: "string list"
  wp_uploaded_by :: nat
  wp_storage_provider_id :: nat
  wp_is_featured :: nat

record resolution_row =
  rr_wallpaper_id :: nat
  rr_width :: nat
  rr_height :: nat
  rr_resolution_name :: string
  rr_file_size :: nat
  rr_url :: string
  rr_is_original :: nat

datatype event =
    ConsoleError string error
  | ConsoleWarn string
  | ResizeCall nat nat "resize_options option"
  | UploadCall string string
  | WallpaperInsert wallpaper_data
  | CategoriesInsert nat "nat list"
  | ResolutionsInsert "resolution_row list"

text \<open>
  The state of the process: the static field \<open>StorageFactory.instance\<close>, the number of
  service objects constructed and of configuration queries issued so far, and the
  trace of what the code did to the outside (console, codec calls, storage calls, row
  writes), in order.
\<close>

record world =
  factory_instance :: "service option"
  constructed :: nat
  queries :: nat
  trace :: "event list"

text \<open>
  An \<open>async\<close> function that reads or changes this state: from the state before to
  its outcome and the state after. \<open>resolve\<close> and \<open>reject\<close> are \<open>return\<close> and \<open>throw\<close>,
  \<open>settled\<close> awaits a promise whose outcome is known, \<open>await m f\<close> runs \<open>f\<close> on the value
  of \<open>m\<close> and stops at its rejection, \<open>try_catch m h\<close> hands a rejection of \<open>m\<close> to \<open>h\<close>
  in the state the failure left, and \<open>emit\<close> records an event.
\<close>

type_synonym 'a run = "world \<Rightarrow> (error + 'a) \<times> world"

definition resolve :: "'a \<Rightarrow> 'a run" where
  "resolve x = (\<lambda>w. (Inr x, w))"

definition reject :: "error \<Rightarrow> 'a run" where
  "reject e = (\<lambda>w. (Inl e, w))"

definition settled :: "error + 'a \<Rightarrow> 'a run" where
  "settled r = (\<lambda>w. (r, w))"

definition await :: "'a run \<Rightarrow> ('a \<Rightarrow> 'b run) \<Rightarrow> 'b run" where
  "await m f = (\<lambda>w. case m w of (Inl e, w') \<Rightarrow> (Inl e, w') | (Inr x, w') \<Rightarrow> f x w')"

definition try_catch :: "'a run \<Rightarrow> (error \<Rightarrow> 'a run) \<Rightarrow> 'a run" where
  "try_catch m h = (\<lambda>w. case m w of (Inl e, w') \<Rightarrow> h e w' | (Inr x, w') \<Rightarrow> (Inr x, w'))"

definition emit :: "event \<Rightarrow> unit run" where
  "emit ev = (\<lambda>w. (Inr (), w\<lparr>trace := trace w @ [ev]\<rparr>))"

text \<open>A call of \<open>resize\<close> seen from outside: the call is recorded, then it settles.\<close>

definition call_resize ::
  "sharp_lib \<Rightarrow> buffer \<Rightarrow> nat \<Rightarrow> nat \<Rightarrow> resize_options option \<Rightarrow> processed_image run" where
  "call_resize sh imageBuffer width height options =
     await (emit (ResizeCall width height options))
       (\<lambda>_. settled (resize sh imageBuffer width height options))"

text \<open>The controller calls both helpers with the default box.\<close>

definition generateThumbnail :: "sharp_lib \<Rightarrow> buffer \<Rightarrow> processed_image run" where
  "generateThumbnail sh imageBuffer = call_resize sh imageBuffer 400 300 (Some thumbnail_options)"

definition generateMedium :: "sharp_lib \<Rightarrow> buffer \<Rightarrow> processed_image run" where
  "generateMedium sh imageBuffer = call_resize sh imageBuffer 800 600 (Some medium_options)"


section \<open>ImageProcessingService: the functions that log\<close>

subsection \<open>extractPrimaryColor\<close>

definition math_round :: "real \<Rightarrow> int" where
  "math_round x = \<lfloor>x + 1 / 2\<rfloor>"

fun hex_of_nat :: "nat \<Rightarrow> string" where
  "hex_of_nat n = (if n < 16 then [digit_char n] else hex_of_nat (n div 16) @ [digit_char (n mod 16)])"

declare hex_of_nat.simps [simp del]

definition toString16 :: "int \<Rightarrow> string" where
  "toString16 i = (if i < 0 then CHR ''-'' # hex_of_nat (nat (- i)) else hex_of_nat (nat i))"

definition padStart :: "nat \<Rightarrow> char \<Rightarrow> string \<Rightarrow> string" where
  "padStart n c s = replicate (n - length s) c @ s"

text \<open>\<open>stats.channels[i].mean\<close>: reading \<open>mean\<close> of a missing channel is a TypeError.\<close>

definition channel_mean :: "real list \<Rightarrow> nat \<Rightarrow> error + real" where
  "channel_mean channels i =
     (if i < length channels then Inr (channels ! i)
      else Inl (Error ''Cannot read properties of undefined''))"

definition hex_component :: "real \<Rightarrow> string" where
  "hex_component m = padStart 2 (CHR ''0'') (toString16 (math_round m))"

definition extractPrimaryColor_try :: "sharp_lib \<Rightarrow> buffer \<Rightarrow> error + string" where
  "extractPrimaryColor_try sh imageBuffer =
     (case sharp_stats sh imageBuffer of
        Inl e \<Rightarrow> Inl e
      | Inr channels \<Rightarrow>
          (case channel_mean channels 0 of
             Inl e \<Rightarrow> Inl e
           | Inr m0 \<Rightarrow>
               (case channel_mean channels 1 of
                  Inl e \<Rightarrow> Inl e
                | Inr m1 \<Rightarrow>
                    (case channel_mean channels 2 of
                       Inl e \<Rightarrow> Inl e
                     | Inr m2 \<Rightarrow>
                         Inr (''#'' @ hex_component m0 @ hex_component m1 @ hex_component m2)))))"

definition extractPrimaryColor :: "sharp_lib \<Rightarrow> buffer \<Rightarrow> string run" where
  "extractPrimaryColor sh imageBuffer =
     try_catch (settled (extractPrimaryColor_try sh imageBuffer))
       (\<lambda>err. await (emit (ConsoleError ''Failed to extract primary color:'' err))
                 (\<lambda>_. resolve ''#000000''))"

subsection \<open>generateAllResolutions\<close>

text \<open>A JavaScript \<open>Map\<close> keeps insertion order; \<open>set\<close> on a present key replaces the
  value in place.\<close>

fun map_set :: "('k \<times> 'v) list \<Rightarrow> 'k \<Rightarrow> 'v \<Rightarrow> ('k \<times> 'v) list" where
  "map_set [] k v = [(k, v)]"
| "map_set ((k', v') # m) k v = (if k' = k then (k, v) # m else (k', v') # map_set m k v)"

fun generate_loop ::
  "sharp_lib \<Rightarrow> buffer \<Rightarrow> resolution_config list \<Rightarrow> (string \<times> processed_image) list
     \<Rightarrow> (string \<times> processed_image) list run" where
  "generate_loop sh imageBuffer [] results = resolve results"
| "generate_loop sh imageBuffer (res # rest) results =
     await
       (try_catch
          (await (call_resize sh imageBuffer (rc_width res) (rc_height res) None)
             (\<lambda>processed. resolve (map_set results (rc_name res) processed)))
          (\<lambda>err. await (emit (ConsoleError (''Failed to generate '' @ rc_name res @ '':'') err))
                    (\<lambda>_. resolve results)))
       (generate_loop sh imageBuffer rest)"

definition generateAllResolutions ::
  "sharp_lib \<Rightarrow> buffer \<Rightarrow> bool \<Rightarrow> (string \<times> processed_image) list run" where
  "generateAllResolutions sh imageBuffer includeOriginal =
     await
       (if includeOriginal
        then await (settled (sharp_metadata sh imageBuffer))
               (\<lambda>md. resolve (map_set [] ''original''
                  \<lparr>pi_buffer = imageBuffer,
                   pi_width = or_num (md_width md) 0,
                   pi_height = or_num (md_height md) 0,
                   pi_format = or_str (md_format md) ''jpeg'',
                   pi_size = length imageBuffer\<rparr>))
        else resolve [])
       (generate_loop sh imageBuffer RESOLUTIONS)"


section \<open>StorageFactory\<close>

definition lower_char :: "char \<Rightarrow> char" where
  "lower_char c =
     (case map_of (zip ''ABCDEFGHIJKLMNOPQRSTUVWXYZ'' ''abcdefghijklmnopqrstuvwxyz'') c of
        None \<Rightarrow> c
      | Some d \<Rightarrow> d)"

definition toLowerCase :: "string \<Rightarrow> string" where
  "toLowerCase s = map lower_char s"

definition new_service :: "provider \<Rightarrow> service run" where
  "new_service k =
     (\<lambda>w. (Inr \<lparr>svc_kind = k, svc_id = constructed w\<rparr>, w\<lparr>constructed := Suc (constructed w)\<rparr>))"

definition createService :: "string \<Rightarrow> service run" where
  "createService prov =
     (if toLowerCase prov = ''cloudinary'' then new_service Cloudinary
      else if toLowerCase prov = ''s3'' then new_service S3
      else await (emit (ConsoleWarn (''Unknown storage provider: '' @ prov @ '', falling back to Cloudinary'')))
             (\<lambda>_. new_service Cloudinary))"

text \<open>
  The configuration store is a parameter: \<open>cfg n\<close> is what the \<open>n\<close>-th query of the
  process (counted from 0) answers, the \<open>provider_name\<close> column of the selected rows
  or the error the query throws.
\<close>

definition pool_query :: "(nat \<Rightarrow> error + string list) \<Rightarrow> string list run" where
  "pool_query cfg = (\<lambda>w. (cfg (queries w), w\<lparr>queries := Suc (queries w)\<rparr>))"

definition set_instance :: "service \<Rightarrow> service run" where
  "set_instance svc = (\<lambda>w. (Inr svc, w\<lparr>factory_instance := Some svc\<rparr>))"

definition getActiveService :: "(nat \<Rightarrow> error + string list) \<Rightarrow> service run" where
  "getActiveService cfg =
     (\<lambda>w. case factory_instance w of
        Some svc \<Rightarrow> resolve svc w
      | None \<Rightarrow>
          try_catch
            (await (pool_query cfg)
               (\<lambda>rows. await (createService (if length rows > 0 then hd rows else ''cloudinary''))
                  set_instance))
            (\<lambda>err. await (emit (ConsoleError ''Failed to get storage provider from database:'' err))
                      (\<lambda>_. await (new_service Cloudinary) set_instance))
            w)"

definition reset :: "unit run" where
  "reset = (\<lambda>w. (Inr (), w\<lparr>factory_instance := None\<rparr>))"



section \<open>WallpaperController.create\<close>

text \<open>
  What the handler reads from the request. \<open>req_category_ids\<close> and \<open>req_tags\<close> are the
  values of the two expressions that may call \<open>JSON.parse\<close>: an error when it throws;
  \<open>category_ids\<close> may also be \<open>undefined\<close>. \<open>req_is_featured\<close> is the test
  \<open>is_featured === 'true' || is_featured === true\<close>.
\<close>

record uploaded_file =
  file_buffer :: buffer
  file_size :: nat

record request =
  req_file :: "uploaded_file option"
  req_title :: "string option"
  req_description :: "string option"
  req_tags :: "error + string list"
  req_category_ids :: "error + nat list option"
  req_is_featured :: bool
  req_user :: "nat option"

datatype response_body =
    ErrorBody string
  | ErrorsBody "string list"
  | CreatedBody string "wallpaper_data option"

record response =
  status :: nat
  body :: response_body

text \<open>
  The collaborators of the handler are parameters: the codec, the configuration
  store, the storage provider behind \<open>IStorageService.upload\<close> (by service, file,
  folder and filename), the order in which the three concurrent uploads settle,
  \<open>SlugUtil.generateWithTimestamp\<close> (it reads the clock), \<open>parseInt\<close> of the
  configured size limit (\<open>None\<close> for \<open>NaN\<close>), and the outcome of each database query.
\<close>

record env =
  env_sharp :: sharp_lib
  env_config :: "nat \<Rightarrow> error + string list"
  env_upload :: "service \<Rightarrow> buffer \<Rightarrow> string \<Rightarrow> string \<Rightarrow> error + upload_result"
  env_settle_order :: "nat list"
  env_slug :: "string \<Rightarrow> string"
  env_max_file_size :: "nat option"
  env_wallpaper_insert :: "wallpaper_data \<Rightarrow> error + nat"
  env_categories_insert :: "nat \<Rightarrow> nat list \<Rightarrow> error + unit"
  env_resolutions_insert :: "resolution_row list \<Rightarrow> error + unit"
  env_wallpaper_find :: "nat \<Rightarrow> error + wallpaper_data option"

definition type_error :: error where
  "type_error = Error ''Cannot read properties of undefined''"

subsection \<open>Storage and persistence calls\<close>

definition upload :: "env \<Rightarrow> service \<Rightarrow> buffer \<Rightarrow> string \<Rightarrow> string \<Rightarrow> upload_result run" where
  "upload ev svc file folder filename =
     await (emit (UploadCall folder filename))
       (\<lambda>_. settled (env_upload ev svc file folder filename))"

text \<open>
  \<open>Promise.all\<close> over three promises: fulfilled with the three values when all are,
  rejected otherwise with the rejection that settles first. \<open>rejections\<close> lists the
  rejections in settling order (indices \<open>order\<close> leaves out follow in index order), so
  it is not empty when a promise is rejected.
\<close>

definition rejections :: "nat list \<Rightarrow> (error + 'a) list \<Rightarrow> error list" where
  "rejections order rs =
     concat (map (\<lambda>i. if i < length rs then (case rs ! i of Inl e \<Rightarrow> [e] | Inr _ \<Rightarrow> []) else [])
                 (order @ [0..<length rs]))"

definition promise_all3 ::
  "nat list \<Rightarrow> error + 'a \<Rightarrow> error + 'a \<Rightarrow> error + 'a \<Rightarrow> error + ('a \<times> 'a \<times> 'a)" where
  "promise_all3 order r0 r1 r2 =
     (case (r0, r1, r2) of
        (Inr a, Inr b, Inr c) \<Rightarrow> Inr (a, b, c)
      | _ \<Rightarrow> Inl (hd (rejections order [r0, r1, r2])))"

definition WallpaperModel_create :: "env \<Rightarrow> wallpaper_data \<Rightarrow> nat run" where
  "WallpaperModel_create ev wallpaperData =
     await (emit (WallpaperInsert wallpaperData))
       (\<lambda>_. settled (env_wallpaper_insert ev wallpaperData))"

definition addCategories :: "env \<Rightarrow> nat \<Rightarrow> nat list \<Rightarrow> unit run" where
  "addCategories ev wallpaperId categoryIds =
     (if length categoryIds = 0 then resolve ()
      else await (emit (CategoriesInsert wallpaperId categoryIds))
             (\<lambda>_. settled (env_categories_insert ev wallpaperId categoryIds)))"

definition bulkCreate :: "env \<Rightarrow> resolution_row list \<Rightarrow> unit run" where
  "bulkCreate ev resolutions =
     (if length resolutions = 0 then resolve ()
      else await (emit (ResolutionsInsert resolutions))
             (\<lambda>_. settled (env_resolutions_insert ev resolutions)))"

definition findById :: "env \<Rightarrow> nat \<Rightarrow> wallpaper_data option run" where
  "findById ev wallpaperId = settled (env_wallpaper_find ev wallpaperId)"

subsection \<open>The handler\<close>

text \<open>\<open>name.toLowerCase().replace(/\s+/g, '-')\<close>: every run of white space becomes one
  hyphen.\<close>

definition is_space :: "char \<Rightarrow> bool" where
  "is_space c = (c \<in> set [CHR '' '', CHR 0x09, CHR 0x0A, CHR 0x0B, CHR 0x0C, CHR 0x0D])"

fun replace_ws_from :: "bool \<Rightarrow> string \<Rightarrow> string" where
  "replace_ws_from in_run [] = []"
| "replace_ws_from in_run (c # cs) =
     (if is_space c
      then (if in_run then replace_ws_from True cs else CHR ''-'' # replace_ws_from True cs)
      else c # replace_ws_from False cs)"

definition replace_ws :: "string \<Rightarrow> string" where
  "replace_ws s = replace_ws_from False s"

text \<open>The values the first half of the handler leaves to the second.\<close>

record core =
  co_metadata :: metadata
  co_primaryColor :: string
  co_slug :: string
  co_storageService :: service
  co_originalUpload :: upload_result
  co_thumbnailUpload :: upload_result
  co_mediumUpload :: upload_result

definition upload_limits :: "env \<Rightarrow> validate_options" where
  "upload_limits ev =
     \<lparr>maxWidth = Some 10000, maxHeight = Some 10000, maxSize = env_max_file_size ev,
      allowedFormats = Some [''jpeg'', ''jpg'', ''png'', ''webp'']\<rparr>"

text \<open>
  From \<open>getMetadata\<close> to the three core uploads. The three \<open>upload\<close> calls are issued
  before any of them is awaited.
\<close>

definition create_core :: "env \<Rightarrow> request \<Rightarrow> uploaded_file \<Rightarrow> core run" where
  "create_core ev req file =
     await (settled (getMetadata (env_sharp ev) (file_buffer file))) (\<lambda>md.
     await (extractPrimaryColor (env_sharp ev) (file_buffer file)) (\<lambda>primaryColor.
     await (case req_title req of None \<Rightarrow> reject type_error
            | Some title \<Rightarrow> resolve (env_slug ev title)) (\<lambda>slug.
     await (getActiveService (env_config ev)) (\<lambda>storageService.
     await (generateThumbnail (env_sharp ev) (file_buffer file)) (\<lambda>thumbnail.
     await (generateMedium (env_sharp ev) (file_buffer file)) (\<lambda>medium.
     await (emit (UploadCall ''wallpapers/original'' slug)) (\<lambda>_.
     await (emit (UploadCall ''wallpapers/thumbnails'' (slug @ ''-thumb''))) (\<lambda>_.
     await (emit (UploadCall ''wallpapers/medium'' (slug @ ''-medium''))) (\<lambda>_.
     await (settled (promise_all3 (env_settle_order ev)
              (env_upload ev storageService (file_buffer file) ''wallpapers/original'' slug)
              (env_upload ev storageService (pi_buffer thumbnail) ''wallpapers/thumbnails'' (slug @ ''-thumb''))
              (env_upload ev storageService (pi_buffer medium) ''wallpapers/medium'' (slug @ ''-medium''))))
       (\<lambda>(originalUpload, thumbnailUpload, mediumUpload).
          resolve \<lparr>co_metadata = md, co_primaryColor = primaryColor, co_slug = slug,
                   co_storageService = storageService, co_originalUpload = originalUpload,
                   co_thumbnailUpload = thumbnailUpload, co_mediumUpload = mediumUpload\<rparr>))))))))))"

text \<open>The loop over the generated resolutions: upload, then push a row.\<close>

definition resolution_filename :: "string \<Rightarrow> string \<Rightarrow> string" where
  "resolution_filename slug name = slug @ ''-'' @ replace_ws (toLowerCase name)"

fun upload_loop ::
  "env \<Rightarrow> service \<Rightarrow> string \<Rightarrow> nat \<Rightarrow> (string \<times> processed_image) list
     \<Rightarrow> resolution_row list \<Rightarrow> resolution_row list run" where
  "upload_loop ev svc slug wallpaperId [] resolutionData = resolve resolutionData"
| "upload_loop ev svc slug wallpaperId ((name, processed) # rest) resolutionData =
     await (upload ev svc (pi_buffer processed) ''wallpapers/resolutions'' (resolution_filename slug name))
       (\<lambda>resUpload.
          upload_loop ev svc slug wallpaperId rest
            (resolutionData @
               [\<lparr>rr_wallpaper_id = wallpaperId, rr_width = pi_width processed,
                 rr_height = pi_height processed, rr_resolution_name = name,
                 rr_file_size = pi_size processed, rr_url = url resUpload,
                 rr_is_original = (if name = ''original'' then 1 else 0)\<rparr>]))"

text \<open>From \<open>WallpaperModel.create\<close> to the response.\<close>

definition create_persist ::
  "env \<Rightarrow> request \<Rightarrow> uploaded_file \<Rightarrow> nat list option \<Rightarrow> core \<Rightarrow> response run" where
  "create_persist ev req file categoryIds co =
     await (settled (req_tags req)) (\<lambda>tags.
     await (case req_user req of None \<Rightarrow> reject type_error | Some userId \<Rightarrow> resolve userId) (\<lambda>userId.
     await (WallpaperModel_create ev
              \<lparr>wp_title = req_title req, wp_slug = co_slug co,
               wp_description = req_description req,
               wp_original_url = url (co_originalUpload co),
               wp_thumbnail_url = url (co_thumbnailUpload co),
               wp_medium_url = url (co_mediumUpload co),
               wp_primary_color = co_primaryColor co,
               wp_tags = tags, wp_uploaded_by = userId, wp_storage_provider_id = 1,
               wp_is_featured = (if req_is_featured req then 1 else 0)\<rparr>) (\<lambda>wallpaperId.
     await (case categoryIds of
              None \<Rightarrow> reject type_error
            | Some ids \<Rightarrow> if length ids > 0 then addCategories ev wallpaperId ids else resolve ()) (\<lambda>_.
     await (generateAllResolutions (env_sharp ev) (file_buffer file) False) (\<lambda>resolutions.
     await (upload_loop ev (co_storageService co) (co_slug co) wallpaperId resolutions []) (\<lambda>resolutionData.
     await (bulkCreate ev
              (resolutionData @
                 [\<lparr>rr_wallpaper_id = wallpaperId,
                   rr_width = or_num (md_width (co_metadata co)) 0,
                   rr_height = or_num (md_height (co_metadata co)) 0,
                   rr_resolution_name = ''Original'', rr_file_size = file_size file,
                   rr_url = url (co_originalUpload co), rr_is_original = 1\<rparr>])) (\<lambda>_.
     await (findById ev wallpaperId) (\<lambda>wallpaper.
       resolve \<lparr>status = 201, body = CreatedBody ''Wallpaper uploaded successfully'' wallpaper\<rparr>))))))))"

text \<open>The body of the \<open>try\<close> block, and the handler with its \<open>catch\<close>.\<close>

definition create_try :: "env \<Rightarrow> request \<Rightarrow> response run" where
  "create_try ev req =
     (case req_file req of
        None \<Rightarrow> resolve \<lparr>status = 400, body = ErrorBody ''Image file is required''\<rparr>
      | Some file \<Rightarrow>
          (case req_category_ids req of
             Inl e \<Rightarrow> resolve \<lparr>status = 400, body = ErrorBody ''Invalid category_ids format''\<rparr>
           | Inr categoryIds \<Rightarrow>
               await (settled (validate (env_sharp ev) (file_buffer file) (Some (upload_limits ev))))
                 (\<lambda>validation.
                    if \<not> valid validation
                    then resolve \<lparr>status = 400, body = ErrorsBody (errors validation)\<rparr>
                    else await (create_core ev req file) (create_persist ev req file categoryIds))))"

definition error_text :: "error \<Rightarrow> string" where
  "error_text err = (if message err = [] then ''Failed to upload wallpaper'' else message err)"

definition create :: "env \<Rightarrow> request \<Rightarrow> response run" where
  "create ev req =
     try_catch (create_try ev req)
       (\<lambda>err. await (emit (ConsoleError ''Upload wallpaper error:'' err))
                 (\<lambda>_. resolve \<lparr>status = 500, body = ErrorBody (error_text err)\<rparr>))"


section \<open>The specification's vocabulary\<close>

subsection \<open>Violated constraints of validate\<close>


definition exceeds :: "nat option \<Rightarrow> nat option \<Rightarrow> bool" where
  "exceeds actual limit =
     (case limit of
        None \<Rightarrow> False
      | Some l \<Rightarrow> (case actual of None \<Rightarrow> False | Some a \<Rightarrow> 0 < l \<and> l < a))"



definition size_violated :: "validate_options option \<Rightarrow> buffer \<Rightarrow> bool" where
  "size_violated options imageBuffer =
     (case options of None \<Rightarrow> False | Some opts \<Rightarrow> exceeds (Some (length imageBuffer)) (maxSize opts))"


subsection \<open>Events of the catalog sweep and of the persistence boundary\<close>

text \<open>
  A call on the catalog resize/upload path: \<open>generateAllResolutions\<close> resizes without
  options (the thumbnail and medium helpers pass theirs), and the sweep uploads into
  the folder \<open>wallpapers/resolutions\<close>. A row write: any of the three inserts.
\<close>

fun sweep_call :: "event \<Rightarrow> bool" where
  "sweep_call (ResizeCall w h None) = True"
| "sweep_call (UploadCall folder filename) = (folder = ''wallpapers/resolutions'')"
| "sweep_call _ = False"

fun row_write :: "event \<Rightarrow> bool" where
  "row_write (WallpaperInsert d) = True"
| "row_write (CategoriesInsert i cs) = True"
| "row_write (ResolutionsInsert rs) = True"
| "row_write _ = False"

definition quiet :: "event \<Rightarrow> bool" where
  "quiet x = (\<not> sweep_call x \<and> \<not> row_write x)"

text \<open>The provider the configuration names: the first selected row, Cloudinary when
  there is none or when the name is not s3.\<close>

definition configured_provider :: "string list \<Rightarrow> provider" where
  "configured_provider rows =
     (case rows of
        [] \<Rightarrow> Cloudinary
      | name # _ \<Rightarrow> if toLowerCase name = ''s3'' then S3 else Cloudinary)"

text \<open>The service that \<open>getActiveService\<close> hands out in a given state.\<close>

definition active_service :: "(nat \<Rightarrow> error + string list) \<Rightarrow> world \<Rightarrow> service" where
  "active_service cfg w =
     (case factory_instance w of
        Some svc \<Rightarrow> svc
      | None \<Rightarrow>
          \<lparr>svc_kind = (case cfg (queries w) of Inl e \<Rightarrow> Cloudinary | Inr rows \<Rightarrow> configured_provider rows),
           svc_id = constructed w\<rparr>)"

text \<open>The outcomes of the three core uploads of an ingestion that starts in state \<open>w\<close>:
  original, thumbnail, medium.\<close>

definition core_upload_results ::
  "env \<Rightarrow> world \<Rightarrow> uploaded_file \<Rightarrow> processed_image \<Rightarrow> processed_image \<Rightarrow> string
     \<Rightarrow> (error + upload_result) list" where
  "core_upload_results ev w file thumbnail medium title =
     [env_upload ev (active_service (env_config ev) w) (file_buffer file)
        ''wallpapers/original'' (env_slug ev title),
      env_upload ev (active_service (env_config ev) w) (pi_buffer thumbnail)
        ''wallpapers/thumbnails'' (env_slug ev title @ ''-thumb''),
      env_upload ev (active_service (env_config ev) w) (pi_buffer medium)
        ''wallpapers/medium'' (env_slug ev title @ ''-medium'')]"

text \<open>A computation only appends to the trace, and only events that satisfy \<open>P\<close>.\<close>

definition appends :: "(event \<Rightarrow> bool) \<Rightarrow> 'a run \<Rightarrow> bool" where
  "appends P m = (\<forall>w. \<exists>new. trace (snd (m w)) = trace w @ new \<and> list_all P new)"

text \<open>The catalog entries whose variant was generated, with the variant, in catalog
  order.\<close>

definition generated :: "sharp_lib \<Rightarrow> buffer \<Rightarrow> resolution_config list \<Rightarrow> (string \<times> processed_image) list" where
  "generated sh imageBuffer rs =
     concat (map (\<lambda>res. case resize sh imageBuffer (rc_width res) (rc_height res) None of
                           Inl e \<Rightarrow> []
                         | Inr p \<Rightarrow> [(rc_name res, p)]) rs)"

definition generates :: "sharp_lib \<Rightarrow> buffer \<Rightarrow> resolution_config \<Rightarrow> bool" where
  "generates sh imageBuffer res =
     (case resize sh imageBuffer (rc_width res) (rc_height res) None of
        Inl e \<Rightarrow> False
      | Inr p \<Rightarrow> True)"

text \<open>The log entries of the entries whose generation failed, in catalog order.\<close>

definition generation_failures :: "sharp_lib \<Rightarrow> buffer \<Rightarrow> resolution_config list \<Rightarrow> event list" where
  "generation_failures sh imageBuffer rs =
     concat (map (\<lambda>res. case resize sh imageBuffer (rc_width res) (rc_height res) None of
                           Inl e \<Rightarrow> [ConsoleError (''Failed to generate '' @ rc_name res @ '':'') e]
                         | Inr p \<Rightarrow> []) rs)"

text \<open>What the sweep does to the outside, entry by entry: the resize call, and the log
  entry when it fails.\<close>

definition sweep_trace :: "sharp_lib \<Rightarrow> buffer \<Rightarrow> resolution_config list \<Rightarrow> event list" where
  "sweep_trace sh imageBuffer rs =
     concat (map (\<lambda>res. ResizeCall (rc_width res) (rc_height res) None #
                         (case resize sh imageBuffer (rc_width res) (rc_height res) None of
                            Inl e \<Rightarrow> [ConsoleError (''Failed to generate '' @ rc_name res @ '':'') e]
                          | Inr p \<Rightarrow> [])) rs)"

text \<open>The storage provider accepts a generated variant, and the row pushed for it.\<close>

definition stored :: "env \<Rightarrow> service \<Rightarrow> string \<Rightarrow> string \<times> processed_image \<Rightarrow> bool" where
  "stored ev svc slug entry =
     (case env_upload ev svc (pi_buffer (snd entry)) ''wallpapers/resolutions''
             (resolution_filename slug (fst entry)) of
        Inl e \<Rightarrow> False
      | Inr u \<Rightarrow> True)"

definition variant_row :: "env \<Rightarrow> service \<Rightarrow> string \<Rightarrow> nat \<Rightarrow> string \<times> processed_image \<Rightarrow> resolution_row" where
  "variant_row ev svc slug wallpaperId entry =
     \<lparr>rr_wallpaper_id = wallpaperId, rr_width = pi_width (snd entry),
      rr_height = pi_height (snd entry), rr_resolution_name = fst entry,
      rr_file_size = pi_size (snd entry),
      rr_url = (case env_upload ev svc (pi_buffer (snd entry)) ''wallpapers/resolutions''
                       (resolution_filename slug (fst entry)) of
                  Inl e \<Rightarrow> []
                | Inr u \<Rightarrow> url u),
      rr_is_original = (if fst entry = ''original'' then 1 else 0)\<rparr>"

definition is_console :: "event \<Rightarrow> bool" where
  "is_console x = (case x of ConsoleError m e \<Rightarrow> True | ConsoleWarn m \<Rightarrow> True | _ \<Rightarrow> False)"

subsection \<open>Hex colours\<close>






subsection \<open>The cover fit\<close>

text \<open>
  Modelled from the spec: the codec's \<open>resize\<close> under the fit policy "cover" (the sharp
  library is not among the sources). The image is scaled by the larger of the two
  ratios target/source, so that it covers the target box, one side matching exactly
  and the other rounded to the nearest pixel; then it is cropped from the centre to
  the target box. A crop is never larger than the image it cuts.
\<close>

definition round_div :: "nat \<Rightarrow> nat \<Rightarrow> nat" where
  "round_div a b = (2 * a + b) div (2 * b)"

definition cover_scale :: "nat \<times> nat \<Rightarrow> nat \<times> nat \<Rightarrow> nat \<times> nat" where
  "cover_scale src box =
     (if snd box * fst src \<le> fst box * snd src
      then (fst box, round_div (snd src * fst box) (fst src))
      else (round_div (fst src * snd box) (snd src), snd box))"

definition center_crop :: "nat \<times> nat \<Rightarrow> nat \<times> nat \<Rightarrow> (nat \<times> nat) \<times> (nat \<times> nat)" where
  "center_crop img box =
     (let cw = min (fst img) (fst box); ch = min (snd img) (snd box)
      in (((fst img - cw) div 2, (snd img - ch) div 2), (cw, ch)))"

definition cover_dims :: "nat \<times> nat \<Rightarrow> nat \<times> nat \<Rightarrow> nat \<times> nat" where
  "cover_dims src box = snd (center_crop (cover_scale src box) box)"

text \<open>
  Modelled from the spec: an image codec that follows the spec's fit policy. Its
  container format is a parameter: \<open>ic_header\<close> reads width, height and format of a
  buffer (what \<open>decodeMetadata\<close> returns), \<open>ic_decodes\<close> tells whether the sample data
  can be decoded, \<open>ic_render\<close> encodes the input's picture at given dimensions with the
  selected encoder, \<open>ic_other_fit\<close> gives the dimensions under the policies the spec
  does not describe. Encoding fails on a buffer whose header or samples cannot be
  read; otherwise the output is rendered at the dimensions the fit policy computes
  from the source's dimensions and the target box.
\<close>

record image_codec =
  ic_header :: "buffer \<Rightarrow> (nat \<times> nat \<times> string) option"
  ic_decodes :: "buffer \<Rightarrow> bool"
  ic_render :: "buffer \<Rightarrow> nat \<times> nat \<Rightarrow> (string \<times> nat) option \<Rightarrow> buffer"
  ic_other_fit :: "fit \<Rightarrow> nat \<times> nat \<Rightarrow> nat \<times> nat \<Rightarrow> nat \<times> nat"
  ic_stats :: "buffer \<Rightarrow> error + real list"

definition fitted_dims :: "image_codec \<Rightarrow> fit \<Rightarrow> nat \<times> nat \<Rightarrow> nat \<times> nat \<Rightarrow> nat \<times> nat" where
  "fitted_dims ic ft src box = (if ft = Cover then cover_dims src box else ic_other_fit ic ft src box)"

definition spec_metadata :: "image_codec \<Rightarrow> buffer \<Rightarrow> error + metadata" where
  "spec_metadata ic b =
     (case ic_header ic b of
        None \<Rightarrow> Inl (Error ''Input buffer contains unsupported image format'')
      | Some (w, h, f) \<Rightarrow> Inr \<lparr>md_width = Some w, md_height = Some h, md_format = Some f\<rparr>)"

definition spec_toBuffer :: "image_codec \<Rightarrow> pipeline \<Rightarrow> error + buffer" where
  "spec_toBuffer ic p =
     (case ic_header ic (pl_input p) of
        None \<Rightarrow> Inl (Error ''Input buffer contains unsupported image format'')
      | Some (iw, ih, f) \<Rightarrow>
          if ic_decodes ic (pl_input p)
          then Inr (ic_render ic (pl_input p)
                      (fitted_dims ic (pl_fit p) (iw, ih) (pl_width p, pl_height p)) (pl_encoder p))
          else Inl (Error ''Input buffer has corrupt image data''))"

definition spec_sharp :: "image_codec \<Rightarrow> sharp_lib" where
  "spec_sharp ic =
     \<lparr>sharp_metadata = spec_metadata ic, sharp_stats = ic_stats ic, sharp_toBuffer = spec_toBuffer ic\<rparr>"


section \<open>A small concrete codec for closed instances\<close>

text \<open>
  Buffers of the form \<open>[w, h, c, \<dots>]\<close> with \<open>c < 4\<close> decode to a \<open>w \<times> h\<close> image of
  format number \<open>c\<close>; everything else is undecodable. Encoding writes the requested
  box and the chosen format (the input's own when no encoder was selected).
\<close>

definition format_names :: "string list" where
  "format_names = [''jpeg'', ''png'', ''webp'', ''gif'']"

definition format_code :: "string \<Rightarrow> nat" where
  "format_code f = (if f = ''jpeg'' then 0 else if f = ''png'' then 1 else if f = ''webp'' then 2 else 3)"

definition toy_metadata :: "buffer \<Rightarrow> error + metadata" where
  "toy_metadata b =
     (case b of
        w # h # c # rest \<Rightarrow>
          if c < 4 then Inr \<lparr>md_width = Some w, md_height = Some h, md_format = Some (format_names ! c)\<rparr>
          else Inl (Error ''Input buffer contains unsupported image format'')
      | _ \<Rightarrow> Inl (Error ''Input buffer contains unsupported image format''))"

definition toy_stats :: "buffer \<Rightarrow> error + real list" where
  "toy_stats b =
     (case toy_metadata b of
        Inl e \<Rightarrow> Inl e
      | Inr md \<Rightarrow> Inr (map real (drop 3 b)))"

definition toy_toBuffer :: "pipeline \<Rightarrow> error + buffer" where
  "toy_toBuffer p =
     (case toy_metadata (pl_input p) of
        Inl e \<Rightarrow> Inl e
      | Inr md \<Rightarrow>
          Inr ([pl_width p, pl_height p,
                (case pl_encoder p of
                   None \<Rightarrow> pl_input p ! 2
                 | Some (f, q) \<Rightarrow> format_code f)] @ drop 3 (pl_input p)))"

definition toy_sharp :: sharp_lib where
  "toy_sharp = \<lparr>sharp_metadata = toy_metadata, sharp_stats = toy_stats, sharp_toBuffer = toy_toBuffer\<rparr>"




text \<open>The small container format as an instance of the spec's codec: the header is
  the first three cells, the samples are what follows, and there must be some.\<close>

definition toy_header :: "buffer \<Rightarrow> (nat \<times> nat \<times> string) option" where
  "toy_header b =
     (case b of
        w # h # c # rest \<Rightarrow> if c < 4 then Some (w, h, format_names ! c) else None
      | _ \<Rightarrow> None)"

definition toy_render :: "buffer \<Rightarrow> nat \<times> nat \<Rightarrow> (string \<times> nat) option \<Rightarrow> buffer" where
  "toy_render b d e =
     [fst d, snd d, (case e of None \<Rightarrow> b ! 2 | Some (f, q) \<Rightarrow> format_code f)] @ drop 3 b"

definition toy_codec :: image_codec where
  "toy_codec =
     \<lparr>ic_header = toy_header, ic_decodes = (\<lambda>b. 3 < length b), ic_render = toy_render,
      ic_other_fit = (\<lambda>ft src box. box), ic_stats = toy_stats\<rparr>"

definition initial_world :: world where
  "initial_world = \<lparr>factory_instance = None, constructed = 0, queries = 0, trace = []\<rparr>"

definition gif_request :: resize_options where
  "gif_request = \<lparr>ro_quality = None, ro_format = Some ''gif'', ro_fit = None\<rparr>"

text \<open>A configuration store whose first query fails and whose later queries select s3.\<close>

definition failing_then_s3 :: "nat \<Rightarrow> error + string list" where
  "failing_then_s3 n = (if n = 0 then Inl (Error ''connect ECONNREFUSED'') else Inr [''s3''])"

text \<open>
  An environment for closed instances: the small codec, a configuration that selects
  Cloudinary, a database that accepts every write and numbers the wallpaper 7, and
  a storage provider that rejects exactly the upload named \<open>failing\<close>.
\<close>

definition demo_upload :: "string \<Rightarrow> service \<Rightarrow> buffer \<Rightarrow> string \<Rightarrow> string \<Rightarrow> error + upload_result" where
  "demo_upload failing svc file folder filename =
     (if filename = failing then Inl (Error ''storage unavailable'')
      else Inr \<lparr>url = folder @ ''/'' @ filename, publicId = Some filename\<rparr>)"

definition demo_env :: "string \<Rightarrow> env" where
  "demo_env failing =
     \<lparr>env_sharp = toy_sharp,
      env_config = (\<lambda>n. Inr [''cloudinary'']),
      env_upload = demo_upload failing,
      env_settle_order = [0, 1, 2],
      env_slug = (\<lambda>title. ''sunset''),
      env_max_file_size = Some 10485760,
      env_wallpaper_insert = (\<lambda>d. Inr 7),
      env_categories_insert = (\<lambda>i cs. Inr ()),
      env_resolutions_insert = (\<lambda>rs. Inr ()),
      env_wallpaper_find = (\<lambda>i. Inr None)\<rparr>"

text \<open>The small codec with a bound on the width it can encode.\<close>

definition limited_sharp :: "nat \<Rightarrow> sharp_lib" where
  "limited_sharp bound =
     \<lparr>sharp_metadata = toy_metadata, sharp_stats = toy_stats,
      sharp_toBuffer = (\<lambda>p. if pl_width p > bound then Inl (Error ''Processed image is too large'')
                             else toy_toBuffer p)\<rparr>"

definition limited_env :: "nat \<Rightarrow> env" where
  "limited_env bound = (demo_env [])\<lparr>env_sharp := limited_sharp bound\<rparr>"

definition demo_file :: uploaded_file where
  "demo_file = \<lparr>file_buffer = [4000, 3000, 0, 200, 100, 50], file_size = 6\<rparr>"

definition demo_request :: request where
  "demo_request =
     \<lparr>req_file = Some demo_file, req_title = Some ''Sunset'', req_description = None,
      req_tags = Inr [], req_category_ids = Inr (Some []), req_is_featured = False,
      req_user = Some 1\<rparr>"

definition example_limits :: validate_options where
  "example_limits =
     \<lparr>maxWidth = Some 10000, maxHeight = Some 10000, maxSize = Some 4,
      allowedFormats = Some [''jpeg'', ''jpg'', ''png'', ''webp'']\<rparr>"


section \<open>Properties of validate\<close>









text \<open>
  C10. For every undecodable buffer \<open>validate\<close> answers \<open>valid = false\<close> with the single
  message "Invalid image file", whatever the options: the size and format checks are
  not reached once metadata extraction has failed, also when the buffer is longer
  than \<open>maxSize\<close>.
\<close>

theorem validate_undecodable_single_message:
  "sharp_metadata sh imageBuffer = Inl e \<Longrightarrow>
     validate sh imageBuffer options = Inr \<lparr>valid = False, errors = [''Invalid image file'']\<rparr>"
  by (simp add: validate_def validate_try_def)

text \<open>Five undecodable bytes against a four-byte limit.\<close>

theorem validate_undecodable_single_message_witness:
  "sharp_metadata toy_sharp [100, 50, 9, 0, 0] =
     Inl (Error ''Input buffer contains unsupported image format'') \<and>
   size_violated (Some example_limits) [100, 50, 9, 0, 0] \<and>
   validate toy_sharp [100, 50, 9, 0, 0] (Some example_limits) =
     Inr \<lparr>valid = False, errors = [''Invalid image file'']\<rparr>"
proof -
  have md: "sharp_metadata toy_sharp [100, 50, 9, 0, 0] =
      Inl (Error ''Input buffer contains unsupported image format'')"
    by code_simp
  have sz: "size_violated (Some example_limits) [100, 50, 9, 0, 0]"
    by code_simp
  have v: "validate toy_sharp [100, 50, 9, 0, 0] (Some example_limits) =
      Inr \<lparr>valid = False, errors = [''Invalid image file'']\<rparr>"
    by (rule validate_undecodable_single_message [OF md])
  show ?thesis by (intro conjI md sz v)
qed


section \<open>Properties of extractPrimaryColor\<close>





















section \<open>Properties of resize\<close>

lemma select_encoder_unlisted:
  "fmt \<notin> {''jpeg'', ''png'', ''webp''} \<Longrightarrow> select_encoder fmt q p = p"
  by (simp add: select_encoder_def)

text \<open>
  C4 (as amended). \<open>resize\<close> has no unsupported-format error. A requested format other
  than jpeg, png and webp, which the TypeScript signature excludes, selects no
  encoder: the request's format is ignored, the instance is encoded as the codec does
  when left unconfigured, and \<open>resize\<close> fails only where the codec does. (An absent or
  empty format means jpeg.)
\<close>

theorem resize_unlisted_format_ignored:
  "(fmt \<notin> {''jpeg'', ''png'', ''webp''} \<and> fmt \<noteq> [] \<longrightarrow>
      resize sh imageBuffer width height (Some \<lparr>ro_quality = q, ro_format = Some fmt, ro_fit = ft\<rparr>) =
        encode_and_measure sh
          \<lparr>pl_input = imageBuffer, pl_width = width, pl_height = height,
           pl_fit = (case ft of None \<Rightarrow> Cover | Some f \<Rightarrow> f),
           pl_position = ''center'', pl_encoder = None\<rparr> fmt) \<and>
   resize sh imageBuffer width height (Some \<lparr>ro_quality = q, ro_format = Some [], ro_fit = ft\<rparr>) =
     resize sh imageBuffer width height (Some \<lparr>ro_quality = q, ro_format = Some ''jpeg'', ro_fit = ft\<rparr>) \<and>
   resize sh imageBuffer width height (Some \<lparr>ro_quality = q, ro_format = None, ro_fit = ft\<rparr>) =
     resize sh imageBuffer width height (Some \<lparr>ro_quality = q, ro_format = Some ''jpeg'', ro_fit = ft\<rparr>)"
  by (simp add: resize_def opt_field_def select_encoder_unlisted)

text \<open>
  The claim as stated fails: asked for gif on a decodable png, \<open>resize\<close> returns a
  400 \<times> 300 image, still a png, and no error.
\<close>

theorem resize_unsupported_format_counterexample:
  "''gif'' \<notin> {''jpeg'', ''png'', ''webp''} \<and>
   resize toy_sharp [4000, 3000, 1] 400 300 (Some gif_request) =
     Inr \<lparr>pi_buffer = [400, 300, 1], pi_width = 400, pi_height = 300, pi_format = ''png'', pi_size = 3\<rparr>"
  by (simp add: resize_def gif_request_def opt_field_def select_encoder_def encode_and_measure_def
      toy_sharp_def toy_toBuffer_def toy_metadata_def format_names_def)

theorem resize_unlisted_format_ignored_witness:
  "''gif'' \<notin> {''jpeg'', ''png'', ''webp''} \<and> ''gif'' \<noteq> [] \<and>
   resize toy_sharp [4000, 3000, 1] 400 300 (Some \<lparr>ro_quality = None, ro_format = Some ''gif'', ro_fit = None\<rparr>) =
     encode_and_measure toy_sharp
       \<lparr>pl_input = [4000, 3000, 1], pl_width = 400, pl_height = 300, pl_fit = Cover,
        pl_position = ''center'', pl_encoder = None\<rparr> ''gif''"
proof -
  have a: "''gif'' \<notin> {''jpeg'', ''png'', ''webp''}" by simp
  have b: "''gif'' \<noteq> []" by simp
  note t = resize_unlisted_format_ignored [of "''gif''" toy_sharp "[4000, 3000, 1]" 400 300 None None,
      THEN conjunct1, rule_format, OF conjI, OF a b]
  have c: "resize toy_sharp [4000, 3000, 1] 400 300 (Some \<lparr>ro_quality = None, ro_format = Some ''gif'', ro_fit = None\<rparr>) =
     encode_and_measure toy_sharp
       \<lparr>pl_input = [4000, 3000, 1], pl_width = 400, pl_height = 300, pl_fit = Cover,
        pl_position = ''center'', pl_encoder = None\<rparr> ''gif''"
    using t by simp
  show ?thesis by (intro conjI a b c)
qed

lemma round_div_ge: "0 < b \<Longrightarrow> t * b \<le> a \<Longrightarrow> t \<le> round_div a b"
proof -
  assume b: "0 < b" and le: "t * b \<le> a"
  have "t * (2 * b) \<le> 2 * a + b" using le by simp
  then have "t \<le> (2 * a + b) div (2 * b)"
    using b by (simp add: less_eq_div_iff_mult_less_eq)
  then show ?thesis by (simp add: round_div_def)
qed

lemma cover_dims_exact:
  assumes "0 < iw" "0 < ih"
  shows "cover_dims (iw, ih) (tw, th) = (tw, th)"
proof (cases "th * iw \<le> tw * ih")
  case True
  then have "th \<le> round_div (ih * tw) iw"
    using assms by (intro round_div_ge) (simp_all add: mult.commute)
  with True show ?thesis
    by (simp add: cover_dims_def cover_scale_def center_crop_def Let_def min_def)
next
  case False
  then have "tw * ih \<le> th * iw" by simp
  then have "tw \<le> round_div (iw * th) ih"
    using assms by (intro round_div_ge) (simp_all add: mult.commute)
  with False show ?thesis
    by (simp add: cover_dims_def cover_scale_def center_crop_def Let_def min_def)
qed

lemma resize_default_pipeline:
  "resize sh b w h None =
     encode_and_measure sh \<lparr>pl_input = b, pl_width = w, pl_height = h, pl_fit = Cover,
        pl_position = ''center'', pl_encoder = Some (''jpeg'', 90)\<rparr> ''jpeg''"
  by (simp add: resize_def opt_field_def select_encoder_def Let_def)

lemma spec_resize_cover:
  assumes hdr: "ic_header ic imageBuffer = Some (iw, ih, f)"
    and dec: "ic_decodes ic imageBuffer"
    and pos: "0 < iw" "0 < ih"
    and rd: "ic_header ic (ic_render ic imageBuffer (w, h) (Some (''jpeg'', 90))) = Some (w, h, ''jpeg'')"
  shows "resize (spec_sharp ic) imageBuffer w h None =
           Inr \<lparr>pi_buffer = ic_render ic imageBuffer (w, h) (Some (''jpeg'', 90)),
                pi_width = w, pi_height = h, pi_format = ''jpeg'',
                pi_size = length (ic_render ic imageBuffer (w, h) (Some (''jpeg'', 90)))\<rparr>"
  using hdr dec rd cover_dims_exact [OF pos, of w h]
  by (simp add: resize_default_pipeline encode_and_measure_def spec_sharp_def spec_toBuffer_def
      spec_metadata_def fitted_dims_def)

text \<open>A buffer whose header can be read but whose samples cannot be decoded (a truncated
  file) is not resized.\<close>

lemma resize_undecodable_samples:
  "\<not> ic_decodes ic imageBuffer \<Longrightarrow> \<exists>e. resize (spec_sharp ic) imageBuffer w h options = Inl e"
  by (simp add: resize_def encode_and_measure_def spec_sharp_def spec_toBuffer_def Let_def
      select_encoder_def split: option.splits)

text \<open>
  C8. For every catalog entry and every decodable input with positive dimensions,
  of any aspect ratio, \<open>resize\<close> with its defaults on the spec's codec succeeds and
  returns the codec's output for exactly the instance configured with the entry's
  box, the cover fit, the centre position and jpeg at quality 90. That output is the
  input rendered at the dimensions the cover fit computes, it reads back as a jpeg of
  exactly the entry's width and height, and the returned width, height, format and
  size are those of the returned buffer. The codec's container format is only asked
  to read a rendered jpeg back with the dimensions it was rendered at.
\<close>

theorem resize_cover_exact_dimensions:
  assumes "res \<in> set RESOLUTIONS"
    and hdr: "ic_header ic imageBuffer = Some (iw, ih, f)"
    and dec: "ic_decodes ic imageBuffer"
    and pos: "0 < iw" "0 < ih"
    and rd: "\<And>b d q. ic_header ic (ic_render ic b d (Some (''jpeg'', q))) = Some (fst d, snd d, ''jpeg'')"
  shows "\<exists>r. resize (spec_sharp ic) imageBuffer (rc_width res) (rc_height res) None = Inr r \<and>
             sharp_toBuffer (spec_sharp ic)
               \<lparr>pl_input = imageBuffer, pl_width = rc_width res, pl_height = rc_height res,
                pl_fit = Cover, pl_position = ''center'', pl_encoder = Some (''jpeg'', 90)\<rparr> =
               Inr (pi_buffer r) \<and>
             pi_buffer r =
               ic_render ic imageBuffer (cover_dims (iw, ih) (rc_width res, rc_height res))
                 (Some (''jpeg'', 90)) \<and>
             sharp_metadata (spec_sharp ic) (pi_buffer r) =
               Inr \<lparr>md_width = Some (rc_width res), md_height = Some (rc_height res),
                    md_format = Some ''jpeg''\<rparr> \<and>
             pi_width r = rc_width res \<and> pi_height r = rc_height res \<and>
             pi_format r = ''jpeg'' \<and> pi_size r = length (pi_buffer r)"
proof -
  let ?w = "rc_width res" and ?h = "rc_height res"
  let ?out = "ic_render ic imageBuffer (?w, ?h) (Some (''jpeg'', 90))"
  have cd: "cover_dims (iw, ih) (?w, ?h) = (?w, ?h)"
    using pos by (rule cover_dims_exact)
  have rb: "ic_header ic ?out = Some (?w, ?h, ''jpeg'')"
    using rd [of imageBuffer "(?w, ?h)" 90] by simp
  have enc: "sharp_toBuffer (spec_sharp ic)
               \<lparr>pl_input = imageBuffer, pl_width = ?w, pl_height = ?h,
                pl_fit = Cover, pl_position = ''center'', pl_encoder = Some (''jpeg'', 90)\<rparr> = Inr ?out"
    using hdr dec by (simp add: spec_sharp_def spec_toBuffer_def fitted_dims_def cd)
  have md: "sharp_metadata (spec_sharp ic) ?out =
      Inr \<lparr>md_width = Some ?w, md_height = Some ?h, md_format = Some ''jpeg''\<rparr>"
    using rb by (simp add: spec_sharp_def spec_metadata_def)
  have r: "resize (spec_sharp ic) imageBuffer ?w ?h None =
      Inr \<lparr>pi_buffer = ?out, pi_width = ?w, pi_height = ?h, pi_format = ''jpeg'', pi_size = length ?out\<rparr>"
    using hdr dec pos rb by (rule spec_resize_cover)
  show ?thesis
    unfolding r cd using enc md by simp
qed

text \<open>A 4000 \<times> 3000 jpeg resized to the 4K entry: scaled to 3840 \<times> 2880, then cropped
  from row 360 to 3840 \<times> 2160.\<close>

theorem resize_cover_exact_dimensions_witness:
  "\<lparr>rc_name = ''4K'', rc_width = 3840, rc_height = 2160\<rparr> \<in> set RESOLUTIONS \<and>
   ic_header toy_codec [4000, 3000, 0, 200, 100, 50] = Some (4000, 3000, ''jpeg'') \<and>
   ic_decodes toy_codec [4000, 3000, 0, 200, 100, 50] \<and>
   (\<forall>b d q. ic_header toy_codec (ic_render toy_codec b d (Some (''jpeg'', q))) = Some (fst d, snd d, ''jpeg'')) \<and>
   cover_scale (4000, 3000) (3840, 2160) = (3840, 2880) \<and>
   center_crop (3840, 2880) (3840, 2160) = ((0, 360), (3840, 2160)) \<and>
   (\<exists>r. resize (spec_sharp toy_codec) [4000, 3000, 0, 200, 100, 50] 3840 2160 None = Inr r \<and>
        pi_buffer r = [3840, 2160, 0, 200, 100, 50] \<and>
        sharp_metadata (spec_sharp toy_codec) (pi_buffer r) =
          Inr \<lparr>md_width = Some 3840, md_height = Some 2160, md_format = Some ''jpeg''\<rparr> \<and>
        pi_width r = 3840 \<and> pi_height r = 2160)"
proof -
  have mem: "\<lparr>rc_name = ''4K'', rc_width = 3840, rc_height = 2160\<rparr> \<in> set RESOLUTIONS"
    by (simp add: RESOLUTIONS_def)
  have hdr: "ic_header toy_codec [4000, 3000, 0, 200, 100, 50] = Some (4000, 3000, ''jpeg'')"
    by (simp add: toy_codec_def toy_header_def format_names_def)
  have dec: "ic_decodes toy_codec [4000, 3000, 0, 200, 100, 50]"
    by (simp add: toy_codec_def)
  have rd: "ic_header toy_codec (ic_render toy_codec b d (Some (''jpeg'', q))) = Some (fst d, snd d, ''jpeg'')"
    for b d q
    by (simp add: toy_codec_def toy_header_def toy_render_def format_code_def format_names_def)
  have sc: "cover_scale (4000, 3000) (3840, 2160) = (3840, 2880)"
    by (simp add: cover_scale_def round_div_def)
  have cr: "center_crop (3840, 2880) (3840, 2160) = ((0, 360), (3840, 2160))"
    by (simp add: center_crop_def)
  have cd: "cover_dims (4000, 3000) (3840, 2160) = (3840, 2160)"
    by (simp add: cover_dims_def sc cr)
  have rn: "ic_render toy_codec [4000, 3000, 0, 200, 100, 50] (3840, 2160) (Some (''jpeg'', 90)) =
      [3840, 2160, 0, 200, 100, 50]"
    by (simp add: toy_codec_def toy_render_def format_code_def)
  have sel: "rc_width \<lparr>rc_name = ''4K'', rc_width = 3840, rc_height = 2160\<rparr> = 3840"
    "rc_height \<lparr>rc_name = ''4K'', rc_width = 3840, rc_height = 2160\<rparr> = 2160"
    by simp_all
  have pos: "0 < (4000::nat)" "0 < (3000::nat)" by simp_all
  note ex = resize_cover_exact_dimensions [OF mem hdr dec pos rd, unfolded sel cd rn]
  from ex obtain r where
    r: "resize (spec_sharp toy_codec) [4000, 3000, 0, 200, 100, 50] 3840 2160 None = Inr r"
      "pi_buffer r = [3840, 2160, 0, 200, 100, 50]"
      "sharp_metadata (spec_sharp toy_codec) (pi_buffer r) =
          Inr \<lparr>md_width = Some 3840, md_height = Some 2160, md_format = Some ''jpeg''\<rparr>"
      "pi_width r = 3840" "pi_height r = 2160"
    by blast
  have fin: "\<exists>r. resize (spec_sharp toy_codec) [4000, 3000, 0, 200, 100, 50] 3840 2160 None = Inr r \<and>
        pi_buffer r = [3840, 2160, 0, 200, 100, 50] \<and>
        sharp_metadata (spec_sharp toy_codec) (pi_buffer r) =
          Inr \<lparr>md_width = Some 3840, md_height = Some 2160, md_format = Some ''jpeg''\<rparr> \<and>
        pi_width r = 3840 \<and> pi_height r = 2160"
    by (intro exI [of _ r] conjI r)
  have all: "\<forall>b d q. ic_header toy_codec (ic_render toy_codec b d (Some (''jpeg'', q))) = Some (fst d, snd d, ''jpeg'')"
    by (intro allI rd)
  show ?thesis by (intro conjI mem hdr dec all sc cr fin)
qed


section \<open>Properties of StorageFactory\<close>

lemma getActiveService_hit:
  "factory_instance w = Some svc \<Longrightarrow> getActiveService cfg w = (Inr svc, w)"
  by (simp add: getActiveService_def resolve_def)

lemma toLowerCase_cloudinary: "toLowerCase ''cloudinary'' = ''cloudinary''"
  by (simp add: toLowerCase_def lower_char_def)

lemma getActiveService_miss_ok:
  assumes "factory_instance w = None" and "cfg (queries w) = Inr rows"
  shows "fst (getActiveService cfg w) =
           Inr \<lparr>svc_kind = configured_provider rows, svc_id = constructed w\<rparr>"
    and "factory_instance (snd (getActiveService cfg w)) =
           Some \<lparr>svc_kind = configured_provider rows, svc_id = constructed w\<rparr>"
    and "queries (snd (getActiveService cfg w)) = Suc (queries w)"
    and "constructed (snd (getActiveService cfg w)) = Suc (constructed w)"
  using assms
  by (simp_all add: getActiveService_def try_catch_def await_def pool_query_def
      createService_def new_service_def set_instance_def emit_def configured_provider_def
      toLowerCase_cloudinary split: list.splits)

lemma getActiveService_miss_fail:
  assumes "factory_instance w = None" and "cfg (queries w) = Inl e"
  shows "fst (getActiveService cfg w) = Inr \<lparr>svc_kind = Cloudinary, svc_id = constructed w\<rparr>"
    and "factory_instance (snd (getActiveService cfg w)) =
           Some \<lparr>svc_kind = Cloudinary, svc_id = constructed w\<rparr>"
    and "queries (snd (getActiveService cfg w)) = Suc (queries w)"
    and "constructed (snd (getActiveService cfg w)) = Suc (constructed w)"
    and "trace (snd (getActiveService cfg w)) =
           trace w @ [ConsoleError ''Failed to get storage provider from database:'' e]"
  using assms
  by (simp_all add: getActiveService_def try_catch_def await_def pool_query_def
      new_service_def set_instance_def emit_def)

lemma reset_fields:
  "factory_instance (snd (reset w)) = None"
  "queries (snd (reset w)) = queries w"
  "constructed (snd (reset w)) = constructed w"
  "trace (snd (reset w)) = trace w"
  by (simp_all add: reset_def)

lemma getActiveService_caches:
  "\<exists>svc. fst (getActiveService cfg w) = Inr svc \<and>
         factory_instance (snd (getActiveService cfg w)) = Some svc"
proof (cases "factory_instance w")
  case (Some svc)
  then show ?thesis by (simp add: getActiveService_hit)
next
  case None
  then show ?thesis
    by (cases "cfg (queries w)")
       (simp_all add: getActiveService_miss_ok getActiveService_miss_fail)
qed

lemma getActiveService_queries_le:
  "queries (snd (getActiveService cfg w)) \<le> Suc (queries w)"
proof (cases "factory_instance w")
  case (Some svc)
  then show ?thesis by (simp add: getActiveService_hit)
next
  case None
  then show ?thesis
    by (cases "cfg (queries w)")
       (simp_all add: getActiveService_miss_ok getActiveService_miss_fail)
qed

lemma getActiveService_after_reset:
  "queries (snd (getActiveService cfg (snd (reset w)))) = Suc (queries w)"
  "fst (getActiveService cfg (snd (reset w))) =
     Inr \<lparr>svc_kind = (case cfg (queries w) of Inl e \<Rightarrow> Cloudinary | Inr rows \<Rightarrow> configured_provider rows),
          svc_id = constructed w\<rparr>"
  by (cases "cfg (queries w)",
      simp_all add: getActiveService_miss_ok getActiveService_miss_fail reset_fields)+

text \<open>
  C9. Whatever the state and the configuration, \<open>getActiveService\<close> returns a service
  and leaves it in \<open>StorageFactory.instance\<close>; a second call with no \<open>reset\<close> between
  returns that same object (same class, same identity) and changes nothing, so the
  configuration is read at most once over both calls. After \<open>reset\<close> the next call
  issues exactly one new configuration query and constructs the service that the
  answer names.
\<close>

theorem getActiveService_cached_until_reset:
  "(\<exists>svc. fst (getActiveService cfg w) = Inr svc \<and>
          factory_instance (snd (getActiveService cfg w)) = Some svc) \<and>
   getActiveService cfg' (snd (getActiveService cfg w)) =
     (fst (getActiveService cfg w), snd (getActiveService cfg w)) \<and>
   queries (snd (getActiveService cfg w)) \<le> Suc (queries w) \<and>
   queries (snd (getActiveService cfg' (snd (reset (snd (getActiveService cfg w)))))) =
     Suc (queries (snd (getActiveService cfg w))) \<and>
   fst (getActiveService cfg' (snd (reset (snd (getActiveService cfg w))))) =
     Inr \<lparr>svc_kind = (case cfg' (queries (snd (getActiveService cfg w))) of
                         Inl e \<Rightarrow> Cloudinary | Inr rows \<Rightarrow> configured_provider rows),
          svc_id = constructed (snd (getActiveService cfg w))\<rparr>"
proof -
  obtain svc where svc: "fst (getActiveService cfg w) = Inr svc"
      "factory_instance (snd (getActiveService cfg w)) = Some svc"
    using getActiveService_caches by blast
  have second: "getActiveService cfg' (snd (getActiveService cfg w)) =
     (fst (getActiveService cfg w), snd (getActiveService cfg w))"
    using svc by (simp add: getActiveService_hit)
  have ex: "\<exists>svc. fst (getActiveService cfg w) = Inr svc \<and>
          factory_instance (snd (getActiveService cfg w)) = Some svc"
    by (rule getActiveService_caches)
  show ?thesis
    by (intro conjI ex second getActiveService_queries_le
        getActiveService_after_reset [of cfg' "snd (getActiveService cfg w)"])
qed

text \<open>
  C3. When the cache is empty and the configuration query fails, \<open>getActiveService\<close>
  logs the failure and returns a new Cloudinary service. The fallback is held in
  \<open>StorageFactory.instance\<close> like any resolved service, but not for good: \<open>reset\<close>
  empties the cache, and the call that follows queries the configuration again and
  returns the service that the new answer names, not the fallback.
\<close>

theorem getActiveService_fallback_until_reset:
  assumes "factory_instance w = None" and "cfg (queries w) = Inl e"
  shows "fst (getActiveService cfg w) = Inr \<lparr>svc_kind = Cloudinary, svc_id = constructed w\<rparr> \<and>
         trace (snd (getActiveService cfg w)) =
           trace w @ [ConsoleError ''Failed to get storage provider from database:'' e] \<and>
         factory_instance (snd (getActiveService cfg w)) =
           Some \<lparr>svc_kind = Cloudinary, svc_id = constructed w\<rparr> \<and>
         factory_instance (snd (reset (snd (getActiveService cfg w)))) = None \<and>
         queries (snd (getActiveService cfg' (snd (reset (snd (getActiveService cfg w)))))) =
           Suc (Suc (queries w)) \<and>
         fst (getActiveService cfg' (snd (reset (snd (getActiveService cfg w))))) =
           Inr \<lparr>svc_kind = (case cfg' (Suc (queries w)) of
                               Inl e' \<Rightarrow> Cloudinary | Inr rows \<Rightarrow> configured_provider rows),
                svc_id = Suc (constructed w)\<rparr>"
proof -
  note f = getActiveService_miss_fail [of w cfg e, OF assms]
  note r = getActiveService_after_reset [of cfg' "snd (getActiveService cfg w)", unfolded f(3) f(4)]
  show ?thesis
    by (intro conjI f(1) f(5) f(2) reset_fields(1) r)
qed

text \<open>A store whose first query fails and whose second selects s3, from a fresh process.\<close>

theorem getActiveService_fallback_until_reset_witness:
  "factory_instance initial_world = None \<and>
   failing_then_s3 (queries initial_world) = Inl (Error ''connect ECONNREFUSED'') \<and>
   fst (getActiveService failing_then_s3 initial_world) = Inr \<lparr>svc_kind = Cloudinary, svc_id = 0\<rparr> \<and>
   factory_instance (snd (reset (snd (getActiveService failing_then_s3 initial_world)))) = None \<and>
   fst (getActiveService failing_then_s3
         (snd (reset (snd (getActiveService failing_then_s3 initial_world))))) =
     Inr \<lparr>svc_kind = S3, svc_id = 1\<rparr>"
proof -
  have a: "factory_instance initial_world = None"
    by (simp add: initial_world_def)
  have b: "failing_then_s3 (queries initial_world) = Inl (Error ''connect ECONNREFUSED'')"
    by (simp add: initial_world_def failing_then_s3_def)
  have c: "constructed initial_world = 0" and q: "queries initial_world = 0"
    by (simp_all add: initial_world_def)
  have k: "(case failing_then_s3 (Suc 0) of Inl e' \<Rightarrow> Cloudinary | Inr rows \<Rightarrow> configured_provider rows) = S3"
    by (simp add: failing_then_s3_def configured_provider_def toLowerCase_def lower_char_def)
  note t = getActiveService_fallback_until_reset [of initial_world failing_then_s3 _ failing_then_s3,
      OF a b, unfolded c q k]
  have r1: "fst (getActiveService failing_then_s3 initial_world) = Inr \<lparr>svc_kind = Cloudinary, svc_id = 0\<rparr>"
    using t by (elim conjE)
  have r2: "factory_instance (snd (reset (snd (getActiveService failing_then_s3 initial_world)))) = None"
    using t by (elim conjE)
  have r3: "fst (getActiveService failing_then_s3
         (snd (reset (snd (getActiveService failing_then_s3 initial_world))))) =
     Inr \<lparr>svc_kind = S3, svc_id = Suc 0\<rparr>"
    using t by (elim conjE)
  show ?thesis using r3 by (intro conjI a b r1 r2) simp
qed

theorem getActiveService_cached_until_reset_witness:
  "getActiveService failing_then_s3 (snd (getActiveService failing_then_s3 initial_world)) =
     (fst (getActiveService failing_then_s3 initial_world),
      snd (getActiveService failing_then_s3 initial_world)) \<and>
   queries (snd (getActiveService failing_then_s3 initial_world)) \<le> Suc (queries initial_world)"
  using getActiveService_cached_until_reset [of failing_then_s3 initial_world failing_then_s3]
  by (elim conjE) (intro conjI)



section \<open>WallpaperController.create: failure of a core upload\<close>

lemma await_resolve [simp]: "await (resolve x) f = f x"
  by (simp add: await_def resolve_def)

lemma await_reject [simp]: "await (reject e) f = reject e"
  by (simp add: await_def reject_def)

lemma await_settled_Inr [simp]: "await (settled (Inr x)) f = f x"
  by (simp add: await_def settled_def)

lemma await_settled_Inl [simp]: "await (settled (Inl e)) f = reject e"
  by (simp add: await_def settled_def reject_def)

lemma appendsI: "(\<And>w. \<exists>new. trace (snd (m w)) = trace w @ new \<and> list_all P new) \<Longrightarrow> appends P m"
  by (simp add: appends_def)

lemma appendsD: "appends P m \<Longrightarrow> \<exists>new. trace (snd (m w)) = trace w @ new \<and> list_all P new"
  by (simp add: appends_def)

lemma appends_resolve [intro!]: "appends P (resolve x)"
  by (simp add: appends_def resolve_def)

lemma appends_reject [intro!]: "appends P (reject e)"
  by (simp add: appends_def reject_def)

lemma appends_settled [intro!]: "appends P (settled r)"
  by (simp add: appends_def settled_def)

lemma appends_emit: "P x \<Longrightarrow> appends P (emit x)"
  by (simp add: appends_def emit_def)

lemma appends_await:
  assumes m: "appends P m" and f: "\<And>x. appends P (f x)"
  shows "appends P (await m f)"
proof (rule appendsI)
  fix w
  obtain r w1 where mw: "m w = (r, w1)" by (cases "m w")
  from appendsD [OF m, of w] mw obtain n1 where n1: "trace w1 = trace w @ n1" "list_all P n1"
    by auto
  show "\<exists>new. trace (snd (await m f w)) = trace w @ new \<and> list_all P new"
  proof (cases r)
    case (Inl e)
    with mw n1 show ?thesis by (simp add: await_def)
  next
    case (Inr x)
    from appendsD [OF f, of x w1] obtain n2 where n2: "trace (snd (f x w1)) = trace w1 @ n2" "list_all P n2"
      by auto
    with mw n1 Inr have "trace (snd (await m f w)) = trace w @ (n1 @ n2) \<and> list_all P (n1 @ n2)"
      by (simp add: await_def)
    then show ?thesis by blast
  qed
qed

lemma appends_try_catch:
  assumes m: "appends P m" and h: "\<And>e. appends P (h e)"
  shows "appends P (try_catch m h)"
proof (rule appendsI)
  fix w
  obtain r w1 where mw: "m w = (r, w1)" by (cases "m w")
  from appendsD [OF m, of w] mw obtain n1 where n1: "trace w1 = trace w @ n1" "list_all P n1"
    by auto
  show "\<exists>new. trace (snd (try_catch m h w)) = trace w @ new \<and> list_all P new"
  proof (cases r)
    case (Inr x)
    with mw n1 show ?thesis by (simp add: try_catch_def)
  next
    case (Inl e)
    from appendsD [OF h, of e w1] obtain n2 where n2: "trace (snd (h e w1)) = trace w1 @ n2" "list_all P n2"
      by auto
    with mw n1 Inl have "trace (snd (try_catch m h w)) = trace w @ (n1 @ n2) \<and> list_all P (n1 @ n2)"
      by (simp add: try_catch_def)
    then show ?thesis by blast
  qed
qed

lemma appends_new_service: "appends P (new_service k)"
  by (simp add: appends_def new_service_def)

lemma appends_set_instance: "appends P (set_instance svc)"
  by (simp add: appends_def set_instance_def)

lemma appends_pool_query: "appends P (pool_query cfg)"
  by (simp add: appends_def pool_query_def)

lemma quiet_console [simp]: "quiet (ConsoleError m e)" "quiet (ConsoleWarn m)"
  by (simp_all add: quiet_def)

lemma appends_createService: "appends quiet (createService name)"
  unfolding createService_def
  by (auto intro!: appends_await appends_emit appends_new_service)

lemma appends_getActiveService: "appends quiet (getActiveService cfg)"
proof (rule appendsI)
  fix w
  show "\<exists>new. trace (snd (getActiveService cfg w)) = trace w @ new \<and> list_all quiet new"
  proof (cases "factory_instance w")
    case (Some svc)
    then show ?thesis by (simp add: getActiveService_def resolve_def)
  next
    case None
    have "appends quiet (try_catch
            (await (pool_query cfg)
               (\<lambda>rows. await (createService (if length rows > 0 then hd rows else ''cloudinary''))
                  set_instance))
            (\<lambda>err. await (emit (ConsoleError ''Failed to get storage provider from database:'' err))
                      (\<lambda>_. await (new_service Cloudinary) set_instance)))"
      by (intro appends_try_catch appends_await appends_pool_query appends_createService
          appends_set_instance appends_emit appends_new_service quiet_console)
    from appendsD [OF this, of w] None show ?thesis
      by (simp add: getActiveService_def)
  qed
qed

lemma appends_extractPrimaryColor: "appends quiet (extractPrimaryColor sh b)"
  unfolding extractPrimaryColor_def
  by (intro appends_try_catch appends_await appends_settled appends_emit appends_resolve quiet_console)

lemma appends_call_resize: "appends quiet (call_resize sh b w h (Some opts))"
  unfolding call_resize_def
  by (intro appends_await appends_emit appends_settled) (simp add: quiet_def)

lemma quiet_core_uploads [simp]:
  "quiet (UploadCall ''wallpapers/original'' f)"
  "quiet (UploadCall ''wallpapers/thumbnails'' f)"
  "quiet (UploadCall ''wallpapers/medium'' f)"
  by (simp_all add: quiet_def)

lemma appends_create_core: "appends quiet (create_core ev req file)"
  unfolding create_core_def generateThumbnail_def generateMedium_def
  by (intro appends_await appends_settled appends_extractPrimaryColor appends_getActiveService
      appends_call_resize appends_emit quiet_core_uploads)
     (auto split: option.splits prod.splits)

lemma rejections_sound: "e \<in> set (rejections order rs) \<Longrightarrow> Inl e \<in> set rs"
  by (auto simp: rejections_def split: if_splits sum.splits)

lemma rejections_complete:
  assumes "Inl e \<in> set rs"
  shows "rejections order rs \<noteq> []"
proof -
  from assms obtain i where i: "i < length rs" "rs ! i = Inl e"
    by (auto simp: in_set_conv_nth)
  then have "e \<in> set (rejections order rs)"
    by (auto simp: rejections_def intro!: bexI [of _ i])
  then show ?thesis by auto
qed

lemma promise_all3_rejected:
  assumes "Inl e0 \<in> set [r0, r1, r2]"
  shows "\<exists>e. Inl e \<in> set [r0, r1, r2] \<and> promise_all3 order r0 r1 r2 = Inl e"
proof -
  have ne: "rejections order [r0, r1, r2] \<noteq> []"
    using assms by (rule rejections_complete)
  then have "hd (rejections order [r0, r1, r2]) \<in> set (rejections order [r0, r1, r2])"
    by simp
  then have mem: "Inl (hd (rejections order [r0, r1, r2])) \<in> set [r0, r1, r2]"
    by (rule rejections_sound)
  have "promise_all3 order r0 r1 r2 = Inl (hd (rejections order [r0, r1, r2]))"
    using assms by (auto simp: promise_all3_def split: sum.splits)
  with mem show ?thesis by blast
qed

lemma extractPrimaryColor_world:
  "\<exists>c new. extractPrimaryColor sh b w = (Inr c, w\<lparr>trace := trace w @ new\<rparr>)"
proof (cases "extractPrimaryColor_try sh b")
  case (Inl e)
  then have "extractPrimaryColor sh b w =
      (Inr ''#000000'', w\<lparr>trace := trace w @ [ConsoleError ''Failed to extract primary color:'' e]\<rparr>)"
    by (simp add: extractPrimaryColor_def try_catch_def settled_def await_def emit_def resolve_def)
  then show ?thesis by blast
next
  case (Inr c)
  then have "extractPrimaryColor sh b w = (Inr c, w\<lparr>trace := trace w @ []\<rparr>)"
    by (simp add: extractPrimaryColor_def try_catch_def settled_def)
  then show ?thesis by blast
qed

lemma active_service_trace [simp]:
  "active_service cfg (w\<lparr>trace := t\<rparr>) = active_service cfg w"
  by (simp add: active_service_def split: option.splits)

lemma getActiveService_active:
  "fst (getActiveService cfg w) = Inr (active_service cfg w)"
proof (cases "factory_instance w")
  case (Some svc)
  then show ?thesis by (simp add: getActiveService_def resolve_def active_service_def)
next
  case None
  then show ?thesis
    by (cases "cfg (queries w)")
       (simp_all add: getActiveService_def try_catch_def await_def pool_query_def
          createService_def new_service_def set_instance_def emit_def configured_provider_def
          active_service_def toLowerCase_def lower_char_def split: list.splits)
qed

lemma call_resize_result:
  "call_resize sh b wd ht opts w =
     (resize sh b wd ht opts, w\<lparr>trace := trace w @ [ResizeCall wd ht opts]\<rparr>)"
  by (simp add: call_resize_def await_def emit_def settled_def)

lemma validate_valid_decodable:
  assumes "validate sh b opts = Inr v" "valid v"
  shows "\<exists>md. sharp_metadata sh b = Inr md"
  using assms by (cases "sharp_metadata sh b") (auto simp: validate_def validate_try_def)

lemma create_core_upload_rejected:
  assumes md: "sharp_metadata (env_sharp ev) (file_buffer file) = Inr md"
    and title: "req_title req = Some title"
    and th: "resize (env_sharp ev) (file_buffer file) 400 300 (Some thumbnail_options) = Inr thumbnail"
    and me: "resize (env_sharp ev) (file_buffer file) 800 600 (Some medium_options) = Inr medium"
    and rej: "promise_all3 (env_settle_order ev)
        (env_upload ev (active_service (env_config ev) w) (file_buffer file) ''wallpapers/original'' (env_slug ev title))
        (env_upload ev (active_service (env_config ev) w) (pi_buffer thumbnail) ''wallpapers/thumbnails'' (env_slug ev title @ ''-thumb''))
        (env_upload ev (active_service (env_config ev) w) (pi_buffer medium) ''wallpapers/medium'' (env_slug ev title @ ''-medium'')) = Inl e"
  shows "fst (create_core ev req file w) = Inl e"
proof -
  obtain c new where c: "extractPrimaryColor (env_sharp ev) (file_buffer file) w =
      (Inr c, w\<lparr>trace := trace w @ new\<rparr>)"
    using extractPrimaryColor_world by blast
  define w1 where "w1 = w\<lparr>trace := trace w @ new\<rparr>"
  obtain w2 where g: "getActiveService (env_config ev) w1 = (Inr (active_service (env_config ev) w), w2)"
    using getActiveService_active [of "env_config ev" w1]
    by (cases "getActiveService (env_config ev) w1") (simp add: w1_def)
  show ?thesis
    using md title th me rej c g
    by (simp add: create_core_def getMetadata_def await_def w1_def [symmetric]
        generateThumbnail_def generateMedium_def call_resize_result emit_def settled_def resolve_def)
qed

lemma create_try_accepted:
  assumes "req_file req = Some file" and "req_category_ids req = Inr categoryIds"
    and "validate (env_sharp ev) (file_buffer file) (Some (upload_limits ev)) = Inr v" and "valid v"
  shows "create_try ev req = await (create_core ev req file) (create_persist ev req file categoryIds)"
  using assms by (simp add: create_try_def)

lemma create_core_rejected:
  assumes acc: "create_try ev req = await (create_core ev req file) (create_persist ev req file categoryIds)"
    and rej: "fst (create_core ev req file w) = Inl e"
  shows "\<exists>new. fst (create ev req w) = Inr \<lparr>status = 500, body = ErrorBody (error_text e)\<rparr> \<and>
           trace (snd (create ev req w)) = trace w @ new \<and> list_all quiet new"
proof -
  obtain w1 where c: "create_core ev req file w = (Inl e, w1)"
    using rej by (cases "create_core ev req file w") simp
  from appendsD [OF appends_create_core, of ev req "file" w] c
  obtain n1 where n1: "trace w1 = trace w @ n1" "list_all quiet n1" by auto
  have "create_try ev req w = (Inl e, w1)"
    using c by (simp add: acc await_def)
  then have "create ev req w =
      (Inr \<lparr>status = 500, body = ErrorBody (error_text e)\<rparr>,
       w1\<lparr>trace := trace w1 @ [ConsoleError ''Upload wallpaper error:'' e]\<rparr>)"
    by (simp add: create_def try_catch_def await_def emit_def resolve_def)
  with n1 have "fst (create ev req w) = Inr \<lparr>status = 500, body = ErrorBody (error_text e)\<rparr> \<and>
           trace (snd (create ev req w)) = trace w @ (n1 @ [ConsoleError ''Upload wallpaper error:'' e]) \<and>
           list_all quiet (n1 @ [ConsoleError ''Upload wallpaper error:'' e])"
    by simp
  then show ?thesis by blast
qed

text \<open>
  C2. Take an ingestion that reaches the three core uploads (a file is present, the
  category ids parse, validation passes, a title is given, thumbnail and medium are
  generated). If any of the three uploads, original, thumbnail or medium, is
  rejected, the handler aborts: the caller receives status 500 carrying the message
  of one of the rejected uploads (the one that settled first), and everything the
  run did to the outside is free of catalog-sweep resize or upload calls and of row
  writes.
\<close>

theorem create_core_upload_failure_aborts:
  assumes fl: "req_file req = Some file"
    and cats: "req_category_ids req = Inr categoryIds"
    and val: "validate (env_sharp ev) (file_buffer file) (Some (upload_limits ev)) = Inr v"
    and ok: "valid v"
    and title: "req_title req = Some title"
    and th: "resize (env_sharp ev) (file_buffer file) 400 300 (Some thumbnail_options) = Inr thumbnail"
    and me: "resize (env_sharp ev) (file_buffer file) 800 600 (Some medium_options) = Inr medium"
    and fails: "Inl e0 \<in> set (core_upload_results ev w file thumbnail medium title)"
  shows "\<exists>e new. Inl e \<in> set (core_upload_results ev w file thumbnail medium title) \<and>
           fst (create ev req w) = Inr \<lparr>status = 500, body = ErrorBody (error_text e)\<rparr> \<and>
           trace (snd (create ev req w)) = trace w @ new \<and>
           list_all (\<lambda>x. \<not> sweep_call x \<and> \<not> row_write x) new"
proof -
  obtain md where md: "sharp_metadata (env_sharp ev) (file_buffer file) = Inr md"
    using validate_valid_decodable [OF val ok] by blast
  from fails obtain e where e: "Inl e \<in> set (core_upload_results ev w file thumbnail medium title)"
    and pa: "promise_all3 (env_settle_order ev)
        (env_upload ev (active_service (env_config ev) w) (file_buffer file) ''wallpapers/original'' (env_slug ev title))
        (env_upload ev (active_service (env_config ev) w) (pi_buffer thumbnail) ''wallpapers/thumbnails'' (env_slug ev title @ ''-thumb''))
        (env_upload ev (active_service (env_config ev) w) (pi_buffer medium) ''wallpapers/medium'' (env_slug ev title @ ''-medium'')) = Inl e"
    unfolding core_upload_results_def using promise_all3_rejected by blast
  have rej: "fst (create_core ev req file w) = Inl e"
    by (rule create_core_upload_rejected [OF md title th me pa])
  from create_core_rejected [OF create_try_accepted [OF fl cats val ok] rej]
  obtain new where "fst (create ev req w) = Inr \<lparr>status = 500, body = ErrorBody (error_text e)\<rparr>"
    "trace (snd (create ev req w)) = trace w @ new" "list_all quiet new"
    by blast
  with e show ?thesis
    unfolding quiet_def by blast
qed

lemma demo_validate:
  "validate (env_sharp (demo_env f)) (file_buffer demo_file) (Some (upload_limits (demo_env f))) =
     Inr \<lparr>valid = True, errors = []\<rparr>"
  by (simp add: demo_env_def demo_file_def upload_limits_def validate_def validate_try_def
      toy_sharp_def toy_metadata_def format_names_def check_format_def check_width_def
      check_height_def check_size_def opt_field_def)

lemma demo_thumbnail:
  "resize (env_sharp (demo_env f)) (file_buffer demo_file) 400 300 (Some thumbnail_options) =
     Inr \<lparr>pi_buffer = [400, 300, 0, 200, 100, 50], pi_width = 400, pi_height = 300,
          pi_format = ''jpeg'', pi_size = 6\<rparr>"
  by (simp add: demo_env_def demo_file_def resize_def thumbnail_options_def opt_field_def
      select_encoder_def encode_and_measure_def toy_sharp_def toy_toBuffer_def toy_metadata_def
      format_names_def format_code_def)

lemma demo_medium:
  "resize (env_sharp (demo_env f)) (file_buffer demo_file) 800 600 (Some medium_options) =
     Inr \<lparr>pi_buffer = [800, 600, 0, 200, 100, 50], pi_width = 800, pi_height = 600,
          pi_format = ''jpeg'', pi_size = 6\<rparr>"
  by (simp add: demo_env_def demo_file_def resize_def medium_options_def opt_field_def
      select_encoder_def encode_and_measure_def toy_sharp_def toy_toBuffer_def toy_metadata_def
      format_names_def format_code_def)

text \<open>The thumbnail upload is rejected; original and medium are stored.\<close>

theorem create_core_upload_failure_aborts_witness:
  "req_file demo_request = Some demo_file \<and>
   req_category_ids demo_request = Inr (Some []) \<and>
   req_title demo_request = Some ''Sunset'' \<and>
   core_upload_results (demo_env ''sunset-thumb'') initial_world demo_file
       \<lparr>pi_buffer = [400, 300, 0, 200, 100, 50], pi_width = 400, pi_height = 300,
        pi_format = ''jpeg'', pi_size = 6\<rparr>
       \<lparr>pi_buffer = [800, 600, 0, 200, 100, 50], pi_width = 800, pi_height = 600,
        pi_format = ''jpeg'', pi_size = 6\<rparr> ''Sunset'' =
     [Inr \<lparr>url = ''wallpapers/original/sunset'', publicId = Some ''sunset''\<rparr>,
      Inl (Error ''storage unavailable''),
      Inr \<lparr>url = ''wallpapers/medium/sunset-medium'', publicId = Some ''sunset-medium''\<rparr>] \<and>
   fst (create (demo_env ''sunset-thumb'') demo_request initial_world) =
     Inr \<lparr>status = 500, body = ErrorBody ''storage unavailable''\<rparr> \<and>
   (\<exists>new. trace (snd (create (demo_env ''sunset-thumb'') demo_request initial_world)) =
            trace initial_world @ new \<and>
          list_all (\<lambda>x. \<not> sweep_call x \<and> \<not> row_write x) new)"
proof -
  let ?th = "\<lparr>pi_buffer = [400, 300, 0, 200, 100, 50], pi_width = 400, pi_height = 300,
        pi_format = ''jpeg'', pi_size = 6\<rparr>"
  let ?me = "\<lparr>pi_buffer = [800, 600, 0, 200, 100, 50], pi_width = 800, pi_height = 600,
        pi_format = ''jpeg'', pi_size = 6\<rparr>"
  have fl: "req_file demo_request = Some demo_file"
    and cats: "req_category_ids demo_request = Inr (Some [])"
    and title: "req_title demo_request = Some ''Sunset''"
    by (simp_all add: demo_request_def)
  have ok: "valid \<lparr>valid = True, errors = []\<rparr>" by simp
  have rs: "core_upload_results (demo_env ''sunset-thumb'') initial_world demo_file ?th ?me ''Sunset'' =
     [Inr \<lparr>url = ''wallpapers/original/sunset'', publicId = Some ''sunset''\<rparr>,
      Inl (Error ''storage unavailable''),
      Inr \<lparr>url = ''wallpapers/medium/sunset-medium'', publicId = Some ''sunset-medium''\<rparr>]"
    by (simp add: core_upload_results_def demo_env_def demo_upload_def)
  have mem: "Inl (Error ''storage unavailable'') \<in>
      set (core_upload_results (demo_env ''sunset-thumb'') initial_world demo_file ?th ?me ''Sunset'')"
    by (simp add: rs)
  from create_core_upload_failure_aborts [OF fl cats demo_validate ok title demo_thumbnail demo_medium mem]
  obtain e new where e: "Inl e \<in> set (core_upload_results (demo_env ''sunset-thumb'') initial_world
        demo_file ?th ?me ''Sunset'')"
    and r: "fst (create (demo_env ''sunset-thumb'') demo_request initial_world) =
        Inr \<lparr>status = 500, body = ErrorBody (error_text e)\<rparr>"
    and t: "trace (snd (create (demo_env ''sunset-thumb'') demo_request initial_world)) =
        trace initial_world @ new"
      "list_all (\<lambda>x. \<not> sweep_call x \<and> \<not> row_write x) new"
    by blast
  from e have "e = Error ''storage unavailable''" by (simp add: rs)
  with r have r': "fst (create (demo_env ''sunset-thumb'') demo_request initial_world) =
     Inr \<lparr>status = 500, body = ErrorBody ''storage unavailable''\<rparr>"
    by (simp add: error_text_def)
  from t have ex: "\<exists>new. trace (snd (create (demo_env ''sunset-thumb'') demo_request initial_world)) =
            trace initial_world @ new \<and>
          list_all (\<lambda>x. \<not> sweep_call x \<and> \<not> row_write x) new"
    by blast
  show ?thesis by (intro conjI fl cats title rs r' ex)
qed



section \<open>WallpaperController.create: the catalog sweep\<close>

lemma map_set_fresh: "k \<notin> fst ` set m \<Longrightarrow> map_set m k v = m @ [(k, v)]"
  by (induction m) auto

lemma generated_Cons:
  "generated sh b (res # rs) =
     (case resize sh b (rc_width res) (rc_height res) None of
        Inl e \<Rightarrow> [] | Inr p \<Rightarrow> [(rc_name res, p)]) @ generated sh b rs"
  by (simp add: generated_def)

lemma sweep_trace_Cons:
  "sweep_trace sh b (res # rs) =
     ResizeCall (rc_width res) (rc_height res) None #
     (case resize sh b (rc_width res) (rc_height res) None of
        Inl e \<Rightarrow> [ConsoleError (''Failed to generate '' @ rc_name res @ '':'') e]
      | Inr p \<Rightarrow> []) @ sweep_trace sh b rs"
  by (simp add: sweep_trace_def)

lemma generate_loop_run:
  "distinct (map rc_name rs) \<Longrightarrow> rc_name ` set rs \<inter> fst ` set acc = {} \<Longrightarrow>
     generate_loop sh b rs acc w =
       (Inr (acc @ generated sh b rs), w\<lparr>trace := trace w @ sweep_trace sh b rs\<rparr>)"
proof (induction rs arbitrary: acc w)
  case Nil
  then show ?case by (simp add: generated_def sweep_trace_def resolve_def)
next
  case (Cons res rs)
  from Cons.prems have fresh: "rc_name res \<notin> fst ` set acc" by auto
  show ?case
  proof (cases "resize sh b (rc_width res) (rc_height res) None")
    case (Inl e)
    have d: "distinct (map rc_name rs)" "rc_name ` set rs \<inter> fst ` set acc = {}"
      using Cons.prems by auto
    show ?thesis
      using Inl Cons.IH [OF d]
      by (simp add: generated_Cons sweep_trace_Cons call_resize_result await_def try_catch_def
          emit_def resolve_def)
  next
    case (Inr p)
    have d: "distinct (map rc_name rs)"
      "rc_name ` set rs \<inter> fst ` set (acc @ [(rc_name res, p)]) = {}"
      using Cons.prems by auto
    show ?thesis
      using Inr Cons.IH [OF d]
      by (simp add: generated_Cons sweep_trace_Cons call_resize_result await_def try_catch_def
          emit_def resolve_def map_set_fresh [OF fresh])
  qed
qed

lemma RESOLUTIONS_names:
  "map rc_name RESOLUTIONS =
     [''1080p'', ''1440p'', ''4K'', ''5K'', ''Mobile HD'', ''Mobile 2K'', ''Tablet'', ''Thumbnail'', ''Medium'']"
  by (simp add: RESOLUTIONS_def)

lemma RESOLUTIONS_distinct: "distinct (map rc_name RESOLUTIONS)"
  by (simp add: RESOLUTIONS_names)

lemma generateAllResolutions_run:
  "generateAllResolutions sh b False w =
     (Inr (generated sh b RESOLUTIONS), w\<lparr>trace := trace w @ sweep_trace sh b RESOLUTIONS\<rparr>)"
  using generate_loop_run [OF RESOLUTIONS_distinct, of "[]" sh b w]
  by (simp add: generateAllResolutions_def)

lemma upload_loop_run:
  "list_all (stored ev svc slug) entries \<Longrightarrow>
     upload_loop ev svc slug wid entries acc w =
       (Inr (acc @ map (variant_row ev svc slug wid) entries),
        w\<lparr>trace := trace w @
            map (\<lambda>entry. UploadCall ''wallpapers/resolutions'' (resolution_filename slug (fst entry))) entries\<rparr>)"
proof (induction entries arbitrary: acc w)
  case Nil
  then show ?case by (simp add: resolve_def)
next
  case (Cons entry entries)
  obtain name p where entry: "entry = (name, p)" by (cases entry)
  from Cons.prems entry obtain u where
    u: "env_upload ev svc (pi_buffer p) ''wallpapers/resolutions'' (resolution_filename slug name) = Inr u"
    by (auto simp: stored_def split: sum.splits)
  from Cons.prems have rest: "list_all (stored ev svc slug) entries" by simp
  show ?case
    using u Cons.IH [OF rest]
    by (simp add: entry upload_def await_def emit_def settled_def variant_row_def)
qed

lemma create_persist_run:
  assumes tags: "req_tags req = Inr tags" and user: "req_user req = Some uid"
    and ins: "\<And>d. env_wallpaper_insert ev d = Inr wid"
    and cat: "\<And>i cs. env_categories_insert ev i cs = Inr ()"
    and ups: "list_all (stored ev (co_storageService co) (co_slug co))
                (generated (env_sharp ev) (file_buffer file) RESOLUTIONS)"
    and bulk: "\<And>rows. env_resolutions_insert ev rows = Inr ()"
    and find: "env_wallpaper_find ev wid = Inr wp"
  shows "\<exists>pre. create_persist ev req file (Some ids) co w =
           (Inr \<lparr>status = 201, body = CreatedBody ''Wallpaper uploaded successfully'' wp\<rparr>,
            w\<lparr>trace := trace w @ pre @ sweep_trace (env_sharp ev) (file_buffer file) RESOLUTIONS @
                 map (\<lambda>entry. UploadCall ''wallpapers/resolutions''
                        (resolution_filename (co_slug co) (fst entry)))
                     (generated (env_sharp ev) (file_buffer file) RESOLUTIONS) @
                 [ResolutionsInsert
                    (map (variant_row ev (co_storageService co) (co_slug co) wid)
                       (generated (env_sharp ev) (file_buffer file) RESOLUTIONS) @
                     [\<lparr>rr_wallpaper_id = wid,
                       rr_width = or_num (md_width (co_metadata co)) 0,
                       rr_height = or_num (md_height (co_metadata co)) 0,
                       rr_resolution_name = ''Original'', rr_file_size = file_size file,
                       rr_url = url (co_originalUpload co), rr_is_original = 1\<rparr>])]\<rparr>)"
proof -
  let ?d = "\<lparr>wp_title = req_title req, wp_slug = co_slug co,
               wp_description = req_description req,
               wp_original_url = url (co_originalUpload co),
               wp_thumbnail_url = url (co_thumbnailUpload co),
               wp_medium_url = url (co_mediumUpload co),
               wp_primary_color = co_primaryColor co,
               wp_tags = tags, wp_uploaded_by = uid, wp_storage_provider_id = 1,
               wp_is_featured = (if req_is_featured req then 1 else 0)\<rparr>"
  let ?pre = "WallpaperInsert ?d # (if ids = [] then [] else [CategoriesInsert wid ids])"
  have "create_persist ev req file (Some ids) co w =
           (Inr \<lparr>status = 201, body = CreatedBody ''Wallpaper uploaded successfully'' wp\<rparr>,
            w\<lparr>trace := trace w @ ?pre @ sweep_trace (env_sharp ev) (file_buffer file) RESOLUTIONS @
                 map (\<lambda>entry. UploadCall ''wallpapers/resolutions''
                        (resolution_filename (co_slug co) (fst entry)))
                     (generated (env_sharp ev) (file_buffer file) RESOLUTIONS) @
                 [ResolutionsInsert
                    (map (variant_row ev (co_storageService co) (co_slug co) wid)
                       (generated (env_sharp ev) (file_buffer file) RESOLUTIONS) @
                     [\<lparr>rr_wallpaper_id = wid,
                       rr_width = or_num (md_width (co_metadata co)) 0,
                       rr_height = or_num (md_height (co_metadata co)) 0,
                       rr_resolution_name = ''Original'', rr_file_size = file_size file,
                       rr_url = url (co_originalUpload co), rr_is_original = 1\<rparr>])]\<rparr>)"
    using tags user find
    by (simp add: create_persist_def WallpaperModel_create_def addCategories_def bulkCreate_def
        findById_def ins cat bulk await_def emit_def settled_def resolve_def
        generateAllResolutions_run upload_loop_run [OF ups])
  then show ?thesis by blast
qed

lemma generated_filter:
  "map fst (generated sh b rs) = map rc_name (filter (generates sh b) rs)"
proof (induction rs)
  case Nil
  then show ?case by (simp add: generated_def)
next
  case (Cons res rs)
  then show ?case by (auto simp: generated_Cons generates_def split: sum.splits)
qed

lemma generation_failures_logged:
  "filter is_console (sweep_trace sh b rs) = generation_failures sh b rs"
proof (induction rs)
  case Nil
  then show ?case by (simp add: sweep_trace_def generation_failures_def)
next
  case (Cons res rs)
  have "generation_failures sh b (res # rs) =
      (case resize sh b (rc_width res) (rc_height res) None of
         Inl e \<Rightarrow> [ConsoleError (''Failed to generate '' @ rc_name res @ '':'') e]
       | Inr p \<Rightarrow> []) @ generation_failures sh b rs"
    by (simp add: generation_failures_def)
  with Cons show ?case
    by (simp add: sweep_trace_Cons is_console_def split: sum.splits)
qed

lemma generation_failures_in_sweep:
  "set (generation_failures sh b rs) \<subseteq> set (sweep_trace sh b rs)"
proof -
  have "set (filter is_console (sweep_trace sh b rs)) \<subseteq> set (sweep_trace sh b rs)"
    by auto
  then show ?thesis by (simp add: generation_failures_logged)
qed

lemma create_completes:
  assumes fl: "req_file req = Some file"
    and cats: "req_category_ids req = Inr (Some ids)"
    and val: "validate (env_sharp ev) (file_buffer file) (Some (upload_limits ev)) = Inr v"
    and ok: "valid v"
    and core: "fst (create_core ev req file w) = Inr co"
    and tags: "req_tags req = Inr tags" and user: "req_user req = Some uid"
    and ins: "\<And>d. env_wallpaper_insert ev d = Inr wid"
    and cat: "\<And>i cs. env_categories_insert ev i cs = Inr ()"
    and bulk: "\<And>rows. env_resolutions_insert ev rows = Inr ()"
    and find: "env_wallpaper_find ev wid = Inr wp"
    and ups: "list_all (stored ev (co_storageService co) (co_slug co))
                (generated (env_sharp ev) (file_buffer file) RESOLUTIONS)"
  shows "\<exists>pre rows.
           fst (create ev req w) =
             Inr \<lparr>status = 201, body = CreatedBody ''Wallpaper uploaded successfully'' wp\<rparr> \<and>
           trace (snd (create ev req w)) = pre @ [ResolutionsInsert rows] \<and>
           set (sweep_trace (env_sharp ev) (file_buffer file) RESOLUTIONS) \<subseteq> set pre \<and>
           rows = map (variant_row ev (co_storageService co) (co_slug co) wid)
                    (generated (env_sharp ev) (file_buffer file) RESOLUTIONS) @
                  [\<lparr>rr_wallpaper_id = wid,
                    rr_width = or_num (md_width (co_metadata co)) 0,
                    rr_height = or_num (md_height (co_metadata co)) 0,
                    rr_resolution_name = ''Original'', rr_file_size = file_size file,
                    rr_url = url (co_originalUpload co), rr_is_original = 1\<rparr>]"
proof -
  obtain w1 where c: "create_core ev req file w = (Inr co, w1)"
    using core by (cases "create_core ev req file w") simp
  from create_persist_run [of req tags uid ev wid co "file" wp ids w1, OF tags user ins cat ups bulk find]
  obtain pre where p: "create_persist ev req file (Some ids) co w1 =
           (Inr \<lparr>status = 201, body = CreatedBody ''Wallpaper uploaded successfully'' wp\<rparr>,
            w1\<lparr>trace := trace w1 @ pre @ sweep_trace (env_sharp ev) (file_buffer file) RESOLUTIONS @
                 map (\<lambda>entry. UploadCall ''wallpapers/resolutions''
                        (resolution_filename (co_slug co) (fst entry)))
                     (generated (env_sharp ev) (file_buffer file) RESOLUTIONS) @
                 [ResolutionsInsert
                    (map (variant_row ev (co_storageService co) (co_slug co) wid)
                       (generated (env_sharp ev) (file_buffer file) RESOLUTIONS) @
                     [\<lparr>rr_wallpaper_id = wid,
                       rr_width = or_num (md_width (co_metadata co)) 0,
                       rr_height = or_num (md_height (co_metadata co)) 0,
                       rr_resolution_name = ''Original'', rr_file_size = file_size file,
                       rr_url = url (co_originalUpload co), rr_is_original = 1\<rparr>])]\<rparr>)"
    by blast
  have t: "create_try ev req w = create_persist ev req file (Some ids) co w1"
    using c by (simp add: create_try_accepted [OF fl cats val ok] await_def)
  let ?pre = "trace w1 @ pre @ sweep_trace (env_sharp ev) (file_buffer file) RESOLUTIONS @
                 map (\<lambda>entry. UploadCall ''wallpapers/resolutions''
                        (resolution_filename (co_slug co) (fst entry)))
                     (generated (env_sharp ev) (file_buffer file) RESOLUTIONS)"
  have "fst (create ev req w) =
             Inr \<lparr>status = 201, body = CreatedBody ''Wallpaper uploaded successfully'' wp\<rparr> \<and>
        trace (snd (create ev req w)) = ?pre @ [ResolutionsInsert
                    (map (variant_row ev (co_storageService co) (co_slug co) wid)
                       (generated (env_sharp ev) (file_buffer file) RESOLUTIONS) @
                     [\<lparr>rr_wallpaper_id = wid,
                       rr_width = or_num (md_width (co_metadata co)) 0,
                       rr_height = or_num (md_height (co_metadata co)) 0,
                       rr_resolution_name = ''Original'', rr_file_size = file_size file,
                       rr_url = url (co_originalUpload co), rr_is_original = 1\<rparr>])] \<and>
        set (sweep_trace (env_sharp ev) (file_buffer file) RESOLUTIONS) \<subseteq> set ?pre"
    by (auto simp add: create_def try_catch_def t p)
  then show ?thesis by blast
qed

lemmas demo_defs = demo_env_def limited_env_def limited_sharp_def demo_file_def demo_request_def
  demo_upload_def initial_world_def toy_sharp_def toy_metadata_def toy_stats_def toy_toBuffer_def
  format_names_def format_code_def

lemmas eval_defs = getMetadata_def extractPrimaryColor_def extractPrimaryColor_try_def
  channel_mean_def hex_component_def try_catch_def settled_def getActiveService_def await_def
  pool_query_def createService_def new_service_def set_instance_def generateThumbnail_def
  generateMedium_def call_resize_result resize_def thumbnail_options_def medium_options_def
  opt_field_def select_encoder_def encode_and_measure_def emit_def resolve_def reject_def
  promise_all3_def toLowerCase_def lower_char_def math_round_def toString16_def padStart_def
  digit_char_def upload_limits_def validate_def validate_try_def check_format_def
  check_width_def check_height_def check_size_def

lemma hex_200: "hex_of_nat 200 = ''c8''" and hex_100: "hex_of_nat 100 = ''64''"
  and hex_50: "hex_of_nat 50 = ''32''"
  by (simp_all add: hex_of_nat.simps[of 200] hex_of_nat.simps[of 100] hex_of_nat.simps[of 50]
      hex_of_nat.simps[of 12] hex_of_nat.simps[of 6] hex_of_nat.simps[of 3] digit_char_def)

lemma demo_core_run:
  "create_core (demo_env ''sunset-4k'') demo_request demo_file initial_world =
     (Inr \<lparr>co_metadata = \<lparr>md_width = Some 4000, md_height = Some 3000, md_format = Some ''jpeg''\<rparr>,
           co_primaryColor = ''#c86432'', co_slug = ''sunset'',
           co_storageService = \<lparr>svc_kind = Cloudinary, svc_id = 0\<rparr>,
           co_originalUpload = \<lparr>url = ''wallpapers/original/sunset'', publicId = Some ''sunset''\<rparr>,
           co_thumbnailUpload = \<lparr>url = ''wallpapers/thumbnails/sunset-thumb'', publicId = Some ''sunset-thumb''\<rparr>,
           co_mediumUpload = \<lparr>url = ''wallpapers/medium/sunset-medium'', publicId = Some ''sunset-medium''\<rparr>\<rparr>,
      \<lparr>factory_instance = Some \<lparr>svc_kind = Cloudinary, svc_id = 0\<rparr>, constructed = 1, queries = 1,
        trace = [ResizeCall 400 300 (Some thumbnail_options), ResizeCall 800 600 (Some medium_options),
                 UploadCall ''wallpapers/original'' ''sunset'',
                 UploadCall ''wallpapers/thumbnails'' ''sunset-thumb'',
                 UploadCall ''wallpapers/medium'' ''sunset-medium'']\<rparr>)"
  by (simp add: create_core_def demo_defs eval_defs hex_200 hex_100 hex_50)


lemma demo_generated:
  "generated toy_sharp [4000, 3000, 0, 200, 100, 50] RESOLUTIONS =
     [(''1080p'', \<lparr>pi_buffer = [1920, 1080, 0, 200, 100, 50], pi_width = 1920, pi_height = 1080, pi_format = ''jpeg'', pi_size = 6\<rparr>),
      (''1440p'', \<lparr>pi_buffer = [2560, 1440, 0, 200, 100, 50], pi_width = 2560, pi_height = 1440, pi_format = ''jpeg'', pi_size = 6\<rparr>),
      (''4K'', \<lparr>pi_buffer = [3840, 2160, 0, 200, 100, 50], pi_width = 3840, pi_height = 2160, pi_format = ''jpeg'', pi_size = 6\<rparr>),
      (''5K'', \<lparr>pi_buffer = [5120, 2880, 0, 200, 100, 50], pi_width = 5120, pi_height = 2880, pi_format = ''jpeg'', pi_size = 6\<rparr>),
      (''Mobile HD'', \<lparr>pi_buffer = [1080, 1920, 0, 200, 100, 50], pi_width = 1080, pi_height = 1920, pi_format = ''jpeg'', pi_size = 6\<rparr>),
      (''Mobile 2K'', \<lparr>pi_buffer = [1440, 2560, 0, 200, 100, 50], pi_width = 1440, pi_height = 2560, pi_format = ''jpeg'', pi_size = 6\<rparr>),
      (''Tablet'', \<lparr>pi_buffer = [1536, 2048, 0, 200, 100, 50], pi_width = 1536, pi_height = 2048, pi_format = ''jpeg'', pi_size = 6\<rparr>),
      (''Thumbnail'', \<lparr>pi_buffer = [400, 300, 0, 200, 100, 50], pi_width = 400, pi_height = 300, pi_format = ''jpeg'', pi_size = 6\<rparr>),
      (''Medium'', \<lparr>pi_buffer = [800, 600, 0, 200, 100, 50], pi_width = 800, pi_height = 600, pi_format = ''jpeg'', pi_size = 6\<rparr>)]"
  by (simp add: generated_def RESOLUTIONS_def resize_def opt_field_def select_encoder_def
      encode_and_measure_def toy_sharp_def toy_toBuffer_def toy_metadata_def format_names_def
      format_code_def)

lemma demo_filenames:
  "resolution_filename ''sunset'' ''1080p'' = ''sunset-1080p''"
  "resolution_filename ''sunset'' ''1440p'' = ''sunset-1440p''"
  "resolution_filename ''sunset'' ''4K'' = ''sunset-4k''"
  "resolution_filename ''sunset'' ''5K'' = ''sunset-5k''"
  "resolution_filename ''sunset'' ''Mobile HD'' = ''sunset-mobile-hd''"
  "resolution_filename ''sunset'' ''Mobile 2K'' = ''sunset-mobile-2k''"
  "resolution_filename ''sunset'' ''Tablet'' = ''sunset-tablet''"
  "resolution_filename ''sunset'' ''Thumbnail'' = ''sunset-thumbnail''"
  "resolution_filename ''sunset'' ''Medium'' = ''sunset-medium''"
  by (simp_all add: resolution_filename_def replace_ws_def toLowerCase_def lower_char_def is_space_def)

lemma demo_env_fields:
  "env_sharp (demo_env f) = toy_sharp"
  "env_upload (demo_env f) = demo_upload f"
  "env_wallpaper_insert (demo_env f) d = Inr 7"
  "env_categories_insert (demo_env f) i cs = Inr ()"
  "env_resolutions_insert (demo_env f) rows = Inr ()"
  "env_wallpaper_find (demo_env f) i = Inr None"
  by (simp_all add: demo_env_def)

lemma demo_request_fields:
  "req_file demo_request = Some demo_file"
  "req_title demo_request = Some ''Sunset''"
  "req_description demo_request = None"
  "req_tags demo_request = Inr []"
  "req_category_ids demo_request = Inr (Some [])"
  "req_is_featured demo_request = False"
  "req_user demo_request = Some 1"
  by (simp_all add: demo_request_def)

lemma demo_file_fields:
  "file_buffer demo_file = [4000, 3000, 0, 200, 100, 50]" "file_size demo_file = 6"
  by (simp_all add: demo_file_def)

lemma sweep_trace_no_row_write: "filter row_write (sweep_trace sh b rs) = []"
proof (induction rs)
  case Nil
  then show ?case by (simp add: sweep_trace_def)
next
  case (Cons res rs)
  then show ?case by (simp add: sweep_trace_Cons split: sum.splits)
qed

text \<open>
  The claim as stated fails for a failing upload: the sweep's upload loop has no
  \<open>try\<close> of its own. When the provider rejects the upload of the 4K variant, the
  caller receives status 500 with the provider's message, and the only row written
  is the wallpaper; no resolution row is written at all.
\<close>

theorem sweep_upload_failure_counterexample:
  "fst (create (demo_env ''sunset-4k'') demo_request initial_world) =
     Inr \<lparr>status = 500, body = ErrorBody ''storage unavailable''\<rparr> \<and>
   filter row_write (trace (snd (create (demo_env ''sunset-4k'') demo_request initial_world))) =
     [WallpaperInsert
        \<lparr>wp_title = Some ''Sunset'', wp_slug = ''sunset'', wp_description = None,
         wp_original_url = ''wallpapers/original/sunset'',
         wp_thumbnail_url = ''wallpapers/thumbnails/sunset-thumb'',
         wp_medium_url = ''wallpapers/medium/sunset-medium'',
         wp_primary_color = ''#c86432'', wp_tags = [], wp_uploaded_by = 1,
         wp_storage_provider_id = 1, wp_is_featured = 0\<rparr>]"
proof -
  have acc: "create_try (demo_env ''sunset-4k'') demo_request =
      await (create_core (demo_env ''sunset-4k'') demo_request demo_file)
        (create_persist (demo_env ''sunset-4k'') demo_request demo_file (Some []))"
    by (rule create_try_accepted [OF _ _ demo_validate]) (simp_all add: demo_request_def)
  show ?thesis
    by (simp add: create_def try_catch_def acc await_def demo_core_run create_persist_def
        WallpaperModel_create_def generateAllResolutions_run demo_env_fields demo_request_fields
        demo_file_fields demo_generated demo_filenames upload_def emit_def settled_def
        resolve_def reject_def error_text_def demo_upload_def sweep_trace_no_row_write)
qed

lemma variant_row_name: "map rr_resolution_name (map (variant_row ev svc slug wid) entries) = map fst entries"
  by (simp add: variant_row_def comp_def)

text \<open>
  C7. In an ingestion that succeeds (accepted request, core stage done, every catalog
  entry generated and stored, database writes accepted) the variant sequence has
  exactly one entry per catalog entry, in catalog order: \<open>generateAllResolutions\<close>
  returns the nine entries 1080p, 1440p, 4K, 5K, Mobile HD, Mobile 2K, Tablet,
  Thumbnail, Medium in this order, and the resolution rows written are these nine,
  in this order, followed by the row of the original. The response is 201.
\<close>

theorem create_stores_every_catalog_entry:
  assumes fl: "req_file req = Some file"
    and cats: "req_category_ids req = Inr (Some ids)"
    and val: "validate (env_sharp ev) (file_buffer file) (Some (upload_limits ev)) = Inr v"
    and ok: "valid v"
    and core: "fst (create_core ev req file w) = Inr co"
    and tags: "req_tags req = Inr tags" and user: "req_user req = Some uid"
    and ins: "\<And>d. env_wallpaper_insert ev d = Inr wid"
    and cat: "\<And>i cs. env_categories_insert ev i cs = Inr ()"
    and bulk: "\<And>rows. env_resolutions_insert ev rows = Inr ()"
    and find: "env_wallpaper_find ev wid = Inr wp"
    and gen: "list_all (generates (env_sharp ev) (file_buffer file)) RESOLUTIONS"
    and ups: "list_all (stored ev (co_storageService co) (co_slug co))
                (generated (env_sharp ev) (file_buffer file) RESOLUTIONS)"
  shows "\<exists>pre rows.
           fst (create ev req w) =
             Inr \<lparr>status = 201, body = CreatedBody ''Wallpaper uploaded successfully'' wp\<rparr> \<and>
           trace (snd (create ev req w)) = pre @ [ResolutionsInsert rows] \<and>
           map rr_resolution_name rows =
             [''1080p'', ''1440p'', ''4K'', ''5K'', ''Mobile HD'', ''Mobile 2K'', ''Tablet'',
              ''Thumbnail'', ''Medium'', ''Original''] \<and>
           fst (generateAllResolutions (env_sharp ev) (file_buffer file) False w) =
             Inr (generated (env_sharp ev) (file_buffer file) RESOLUTIONS) \<and>
           map fst (generated (env_sharp ev) (file_buffer file) RESOLUTIONS) =
             [''1080p'', ''1440p'', ''4K'', ''5K'', ''Mobile HD'', ''Mobile 2K'', ''Tablet'',
              ''Thumbnail'', ''Medium'']"
proof -
  have "filter (generates (env_sharp ev) (file_buffer file)) RESOLUTIONS = RESOLUTIONS"
    using gen by (simp add: list_all_iff)
  then have names: "map fst (generated (env_sharp ev) (file_buffer file) RESOLUTIONS) =
      [''1080p'', ''1440p'', ''4K'', ''5K'', ''Mobile HD'', ''Mobile 2K'', ''Tablet'',
       ''Thumbnail'', ''Medium'']"
    by (simp add: generated_filter RESOLUTIONS_names)
  from create_completes [OF fl cats val ok core tags user ins cat bulk find ups]
  obtain pre rows where r: "fst (create ev req w) =
             Inr \<lparr>status = 201, body = CreatedBody ''Wallpaper uploaded successfully'' wp\<rparr>"
    and t: "trace (snd (create ev req w)) = pre @ [ResolutionsInsert rows]"
    and rows: "rows = map (variant_row ev (co_storageService co) (co_slug co) wid)
                    (generated (env_sharp ev) (file_buffer file) RESOLUTIONS) @
                  [\<lparr>rr_wallpaper_id = wid,
                    rr_width = or_num (md_width (co_metadata co)) 0,
                    rr_height = or_num (md_height (co_metadata co)) 0,
                    rr_resolution_name = ''Original'', rr_file_size = file_size file,
                    rr_url = url (co_originalUpload co), rr_is_original = 1\<rparr>]"
    by blast
  have rn: "map rr_resolution_name rows =
             [''1080p'', ''1440p'', ''4K'', ''5K'', ''Mobile HD'', ''Mobile 2K'', ''Tablet'',
              ''Thumbnail'', ''Medium'', ''Original'']"
    unfolding rows by (simp only: map_append variant_row_name names) simp
  have g: "fst (generateAllResolutions (env_sharp ev) (file_buffer file) False w) =
             Inr (generated (env_sharp ev) (file_buffer file) RESOLUTIONS)"
    by (simp add: generateAllResolutions_run)
  show ?thesis
    by (intro exI [of _ pre] exI [of _ rows] conjI r t rn g names)
qed

text \<open>
  C1 (as amended). During the catalog sweep, for every catalog entry whose variant
  generation fails, \<open>generateAllResolutions\<close> logs the failure and continues with the
  next entry: it always returns, its result holds exactly the entries whose
  generation succeeded, in catalog order, and the console entries of the sweep are
  exactly the failures. When the core stage has succeeded and the generated variants
  are then stored and the database writes accepted, the ingestion completes with
  status 201; the resolution rows written are those of the generated entries, in
  catalog order, followed by the original, and every generation failure is in the
  log. Nothing is said here of a failing upload in the sweep.
\<close>

theorem sweep_skips_failed_generation:
  assumes fl: "req_file req = Some file"
    and cats: "req_category_ids req = Inr (Some ids)"
    and val: "validate (env_sharp ev) (file_buffer file) (Some (upload_limits ev)) = Inr v"
    and ok: "valid v"
    and core: "fst (create_core ev req file w) = Inr co"
    and tags: "req_tags req = Inr tags" and user: "req_user req = Some uid"
    and ins: "\<And>d. env_wallpaper_insert ev d = Inr wid"
    and cat: "\<And>i cs. env_categories_insert ev i cs = Inr ()"
    and bulk: "\<And>rows. env_resolutions_insert ev rows = Inr ()"
    and find: "env_wallpaper_find ev wid = Inr wp"
    and ups: "list_all (stored ev (co_storageService co) (co_slug co))
                (generated (env_sharp ev) (file_buffer file) RESOLUTIONS)"
  shows "\<exists>pre rows.
           generateAllResolutions (env_sharp ev) (file_buffer file) False w =
             (Inr (generated (env_sharp ev) (file_buffer file) RESOLUTIONS),
              w\<lparr>trace := trace w @ sweep_trace (env_sharp ev) (file_buffer file) RESOLUTIONS\<rparr>) \<and>
           filter is_console (sweep_trace (env_sharp ev) (file_buffer file) RESOLUTIONS) =
             generation_failures (env_sharp ev) (file_buffer file) RESOLUTIONS \<and>
           map fst (generated (env_sharp ev) (file_buffer file) RESOLUTIONS) =
             map rc_name (filter (generates (env_sharp ev) (file_buffer file)) RESOLUTIONS) \<and>
           fst (create ev req w) =
             Inr \<lparr>status = 201, body = CreatedBody ''Wallpaper uploaded successfully'' wp\<rparr> \<and>
           trace (snd (create ev req w)) = pre @ [ResolutionsInsert rows] \<and>
           set (generation_failures (env_sharp ev) (file_buffer file) RESOLUTIONS) \<subseteq> set pre \<and>
           map rr_resolution_name rows =
             map rc_name (filter (generates (env_sharp ev) (file_buffer file)) RESOLUTIONS) @
             [''Original'']"
proof -
  from create_completes [OF fl cats val ok core tags user ins cat bulk find ups]
  obtain pre rows where r: "fst (create ev req w) =
             Inr \<lparr>status = 201, body = CreatedBody ''Wallpaper uploaded successfully'' wp\<rparr>"
    and t: "trace (snd (create ev req w)) = pre @ [ResolutionsInsert rows]"
    and sw: "set (sweep_trace (env_sharp ev) (file_buffer file) RESOLUTIONS) \<subseteq> set pre"
    and rows: "rows = map (variant_row ev (co_storageService co) (co_slug co) wid)
                    (generated (env_sharp ev) (file_buffer file) RESOLUTIONS) @
                  [\<lparr>rr_wallpaper_id = wid,
                    rr_width = or_num (md_width (co_metadata co)) 0,
                    rr_height = or_num (md_height (co_metadata co)) 0,
                    rr_resolution_name = ''Original'', rr_file_size = file_size file,
                    rr_url = url (co_originalUpload co), rr_is_original = 1\<rparr>]"
    by blast
  have rn: "map rr_resolution_name rows =
             map rc_name (filter (generates (env_sharp ev) (file_buffer file)) RESOLUTIONS) @
             [''Original'']"
    unfolding rows by (simp only: map_append variant_row_name generated_filter) simp
  have fl: "set (generation_failures (env_sharp ev) (file_buffer file) RESOLUTIONS) \<subseteq> set pre"
    using generation_failures_in_sweep sw by blast
  show ?thesis
    by (intro exI [of _ pre] exI [of _ rows] conjI r t rn fl generateAllResolutions_run
        generation_failures_logged generated_filter)
qed

lemma demo_core_ok:
  "fst (create_core (demo_env []) demo_request demo_file initial_world) =
     Inr \<lparr>co_metadata = \<lparr>md_width = Some 4000, md_height = Some 3000, md_format = Some ''jpeg''\<rparr>,
           co_primaryColor = ''#c86432'', co_slug = ''sunset'',
           co_storageService = \<lparr>svc_kind = Cloudinary, svc_id = 0\<rparr>,
           co_originalUpload = \<lparr>url = ''wallpapers/original/sunset'', publicId = Some ''sunset''\<rparr>,
           co_thumbnailUpload = \<lparr>url = ''wallpapers/thumbnails/sunset-thumb'', publicId = Some ''sunset-thumb''\<rparr>,
           co_mediumUpload = \<lparr>url = ''wallpapers/medium/sunset-medium'', publicId = Some ''sunset-medium''\<rparr>\<rparr>"
  by (simp add: create_core_def demo_defs eval_defs hex_200 hex_100 hex_50)

lemma limited_core_ok:
  "fst (create_core (limited_env 4000) demo_request demo_file initial_world) =
     Inr \<lparr>co_metadata = \<lparr>md_width = Some 4000, md_height = Some 3000, md_format = Some ''jpeg''\<rparr>,
           co_primaryColor = ''#c86432'', co_slug = ''sunset'',
           co_storageService = \<lparr>svc_kind = Cloudinary, svc_id = 0\<rparr>,
           co_originalUpload = \<lparr>url = ''wallpapers/original/sunset'', publicId = Some ''sunset''\<rparr>,
           co_thumbnailUpload = \<lparr>url = ''wallpapers/thumbnails/sunset-thumb'', publicId = Some ''sunset-thumb''\<rparr>,
           co_mediumUpload = \<lparr>url = ''wallpapers/medium/sunset-medium'', publicId = Some ''sunset-medium''\<rparr>\<rparr>"
  by (simp add: create_core_def demo_defs eval_defs hex_200 hex_100 hex_50)

lemma limited_env_fields:
  "env_sharp (limited_env n) = limited_sharp n"
  "env_upload (limited_env n) = demo_upload []"
  "env_wallpaper_insert (limited_env n) d = Inr 7"
  "env_categories_insert (limited_env n) i cs = Inr ()"
  "env_resolutions_insert (limited_env n) rows = Inr ()"
  "env_wallpaper_find (limited_env n) i = Inr None"
  by (simp_all add: limited_env_def demo_env_def)

lemma limited_validate:
  "validate (env_sharp (limited_env n)) (file_buffer demo_file) (Some (upload_limits (limited_env n))) =
     Inr \<lparr>valid = True, errors = []\<rparr>"
  by (simp add: limited_env_def limited_sharp_def demo_env_def demo_file_def upload_limits_def
      validate_def validate_try_def toy_metadata_def format_names_def check_format_def
      check_width_def check_height_def check_size_def opt_field_def)

lemma limited_generated:
  "generated (limited_sharp 4000) [4000, 3000, 0, 200, 100, 50] RESOLUTIONS =
     [(''1080p'', \<lparr>pi_buffer = [1920, 1080, 0, 200, 100, 50], pi_width = 1920, pi_height = 1080, pi_format = ''jpeg'', pi_size = 6\<rparr>),
      (''1440p'', \<lparr>pi_buffer = [2560, 1440, 0, 200, 100, 50], pi_width = 2560, pi_height = 1440, pi_format = ''jpeg'', pi_size = 6\<rparr>),
      (''4K'', \<lparr>pi_buffer = [3840, 2160, 0, 200, 100, 50], pi_width = 3840, pi_height = 2160, pi_format = ''jpeg'', pi_size = 6\<rparr>),
      (''Mobile HD'', \<lparr>pi_buffer = [1080, 1920, 0, 200, 100, 50], pi_width = 1080, pi_height = 1920, pi_format = ''jpeg'', pi_size = 6\<rparr>),
      (''Mobile 2K'', \<lparr>pi_buffer = [1440, 2560, 0, 200, 100, 50], pi_width = 1440, pi_height = 2560, pi_format = ''jpeg'', pi_size = 6\<rparr>),
      (''Tablet'', \<lparr>pi_buffer = [1536, 2048, 0, 200, 100, 50], pi_width = 1536, pi_height = 2048, pi_format = ''jpeg'', pi_size = 6\<rparr>),
      (''Thumbnail'', \<lparr>pi_buffer = [400, 300, 0, 200, 100, 50], pi_width = 400, pi_height = 300, pi_format = ''jpeg'', pi_size = 6\<rparr>),
      (''Medium'', \<lparr>pi_buffer = [800, 600, 0, 200, 100, 50], pi_width = 800, pi_height = 600, pi_format = ''jpeg'', pi_size = 6\<rparr>)]"
  by (simp add: generated_def RESOLUTIONS_def resize_def opt_field_def select_encoder_def
      encode_and_measure_def limited_sharp_def toy_toBuffer_def toy_metadata_def format_names_def
      format_code_def)

lemma limited_generates:
  "map rc_name (filter (generates (limited_sharp 4000) [4000, 3000, 0, 200, 100, 50]) RESOLUTIONS) =
     [''1080p'', ''1440p'', ''4K'', ''Mobile HD'', ''Mobile 2K'', ''Tablet'', ''Thumbnail'', ''Medium'']"
  using generated_filter [of "limited_sharp 4000" "[4000, 3000, 0, 200, 100, 50]" RESOLUTIONS]
  by (simp add: limited_generated)

lemma limited_failures:
  "generation_failures (limited_sharp 4000) [4000, 3000, 0, 200, 100, 50] RESOLUTIONS =
     [ConsoleError ''Failed to generate 5K:'' (Error ''Processed image is too large'')]"
  by (simp add: generation_failures_def RESOLUTIONS_def resize_def opt_field_def select_encoder_def
      encode_and_measure_def limited_sharp_def toy_toBuffer_def toy_metadata_def format_names_def
      format_code_def)

lemma demo_generates:
  "list_all (generates toy_sharp [4000, 3000, 0, 200, 100, 50]) RESOLUTIONS"
  by (simp add: generates_def RESOLUTIONS_def resize_def opt_field_def select_encoder_def
      encode_and_measure_def toy_sharp_def toy_toBuffer_def toy_metadata_def format_names_def
      format_code_def)

lemma demo_stored:
  "list_all (stored (demo_env []) svc ''sunset'') (generated toy_sharp [4000, 3000, 0, 200, 100, 50] RESOLUTIONS)"
  by (simp add: demo_generated stored_def demo_env_fields demo_upload_def demo_filenames)

lemma limited_stored:
  "list_all (stored (limited_env 4000) svc ''sunset'')
     (generated (limited_sharp 4000) [4000, 3000, 0, 200, 100, 50] RESOLUTIONS)"
  by (simp add: limited_generated stored_def limited_env_fields demo_upload_def demo_filenames)

text \<open>A 4000 \<times> 3000 jpeg, every upload stored.\<close>

theorem create_stores_every_catalog_entry_witness:
  "list_all (generates (env_sharp (demo_env [])) (file_buffer demo_file)) RESOLUTIONS \<and>
   list_all (stored (demo_env []) \<lparr>svc_kind = Cloudinary, svc_id = 0\<rparr> ''sunset'')
     (generated (env_sharp (demo_env [])) (file_buffer demo_file) RESOLUTIONS) \<and>
   (\<exists>pre rows.
      fst (create (demo_env []) demo_request initial_world) =
        Inr \<lparr>status = 201, body = CreatedBody ''Wallpaper uploaded successfully'' None\<rparr> \<and>
      trace (snd (create (demo_env []) demo_request initial_world)) = pre @ [ResolutionsInsert rows] \<and>
      map rr_resolution_name rows =
        [''1080p'', ''1440p'', ''4K'', ''5K'', ''Mobile HD'', ''Mobile 2K'', ''Tablet'',
         ''Thumbnail'', ''Medium'', ''Original''])"
proof -
  let ?co = "\<lparr>co_metadata = \<lparr>md_width = Some 4000, md_height = Some 3000, md_format = Some ''jpeg''\<rparr>,
           co_primaryColor = ''#c86432'', co_slug = ''sunset'',
           co_storageService = \<lparr>svc_kind = Cloudinary, svc_id = 0\<rparr>,
           co_originalUpload = \<lparr>url = ''wallpapers/original/sunset'', publicId = Some ''sunset''\<rparr>,
           co_thumbnailUpload = \<lparr>url = ''wallpapers/thumbnails/sunset-thumb'', publicId = Some ''sunset-thumb''\<rparr>,
           co_mediumUpload = \<lparr>url = ''wallpapers/medium/sunset-medium'', publicId = Some ''sunset-medium''\<rparr>\<rparr>"
  have gen: "list_all (generates (env_sharp (demo_env [])) (file_buffer demo_file)) RESOLUTIONS"
    by (simp only: demo_env_fields demo_file_fields demo_generates)
  have ups: "list_all (stored (demo_env []) \<lparr>svc_kind = Cloudinary, svc_id = 0\<rparr> ''sunset'')
     (generated (env_sharp (demo_env [])) (file_buffer demo_file) RESOLUTIONS)"
    by (simp only: demo_env_fields demo_file_fields demo_stored)
  have ups': "list_all (stored (demo_env []) (co_storageService ?co) (co_slug ?co))
     (generated (env_sharp (demo_env [])) (file_buffer demo_file) RESOLUTIONS)"
    using ups by simp
  have ok: "valid \<lparr>valid = True, errors = []\<rparr>" by simp
  from create_stores_every_catalog_entry [of demo_request demo_file "[]" "demo_env []" _
      initial_world ?co "[]" 1 7 None,
      OF demo_request_fields(1) demo_request_fields(5) demo_validate ok demo_core_ok
         demo_request_fields(4) demo_request_fields(7) demo_env_fields(3) demo_env_fields(4)
         demo_env_fields(5) demo_env_fields(6) gen ups']
  obtain pre rows where
    "fst (create (demo_env []) demo_request initial_world) =
        Inr \<lparr>status = 201, body = CreatedBody ''Wallpaper uploaded successfully'' None\<rparr>"
    "trace (snd (create (demo_env []) demo_request initial_world)) = pre @ [ResolutionsInsert rows]"
    "map rr_resolution_name rows =
        [''1080p'', ''1440p'', ''4K'', ''5K'', ''Mobile HD'', ''Mobile 2K'', ''Tablet'',
         ''Thumbnail'', ''Medium'', ''Original'']"
    by (elim exE conjE)
  then have ex: "\<exists>pre rows.
      fst (create (demo_env []) demo_request initial_world) =
        Inr \<lparr>status = 201, body = CreatedBody ''Wallpaper uploaded successfully'' None\<rparr> \<and>
      trace (snd (create (demo_env []) demo_request initial_world)) = pre @ [ResolutionsInsert rows] \<and>
      map rr_resolution_name rows =
        [''1080p'', ''1440p'', ''4K'', ''5K'', ''Mobile HD'', ''Mobile 2K'', ''Tablet'',
         ''Thumbnail'', ''Medium'', ''Original'']"
    by (intro exI conjI)
  show ?thesis by (intro conjI gen ups ex)
qed

text \<open>A codec that cannot encode images wider than 4000 pixels: 5K is skipped.\<close>

theorem sweep_skips_failed_generation_witness:
  "generation_failures (env_sharp (limited_env 4000)) (file_buffer demo_file) RESOLUTIONS =
     [ConsoleError ''Failed to generate 5K:'' (Error ''Processed image is too large'')] \<and>
   list_all (stored (limited_env 4000) \<lparr>svc_kind = Cloudinary, svc_id = 0\<rparr> ''sunset'')
     (generated (env_sharp (limited_env 4000)) (file_buffer demo_file) RESOLUTIONS) \<and>
   (\<exists>pre rows.
      fst (create (limited_env 4000) demo_request initial_world) =
        Inr \<lparr>status = 201, body = CreatedBody ''Wallpaper uploaded successfully'' None\<rparr> \<and>
      trace (snd (create (limited_env 4000) demo_request initial_world)) = pre @ [ResolutionsInsert rows] \<and>
      ConsoleError ''Failed to generate 5K:'' (Error ''Processed image is too large'') \<in> set pre \<and>
      map rr_resolution_name rows =
        [''1080p'', ''1440p'', ''4K'', ''Mobile HD'', ''Mobile 2K'', ''Tablet'',
         ''Thumbnail'', ''Medium'', ''Original''])"
proof -
  let ?co = "\<lparr>co_metadata = \<lparr>md_width = Some 4000, md_height = Some 3000, md_format = Some ''jpeg''\<rparr>,
           co_primaryColor = ''#c86432'', co_slug = ''sunset'',
           co_storageService = \<lparr>svc_kind = Cloudinary, svc_id = 0\<rparr>,
           co_originalUpload = \<lparr>url = ''wallpapers/original/sunset'', publicId = Some ''sunset''\<rparr>,
           co_thumbnailUpload = \<lparr>url = ''wallpapers/thumbnails/sunset-thumb'', publicId = Some ''sunset-thumb''\<rparr>,
           co_mediumUpload = \<lparr>url = ''wallpapers/medium/sunset-medium'', publicId = Some ''sunset-medium''\<rparr>\<rparr>"
  have fails: "generation_failures (env_sharp (limited_env 4000)) (file_buffer demo_file) RESOLUTIONS =
     [ConsoleError ''Failed to generate 5K:'' (Error ''Processed image is too large'')]"
    by (simp only: limited_env_fields demo_file_fields limited_failures)
  have names: "map rc_name (filter (generates (env_sharp (limited_env 4000)) (file_buffer demo_file)) RESOLUTIONS) =
     [''1080p'', ''1440p'', ''4K'', ''Mobile HD'', ''Mobile 2K'', ''Tablet'', ''Thumbnail'', ''Medium'']"
    by (simp only: limited_env_fields demo_file_fields limited_generates)
  have ups: "list_all (stored (limited_env 4000) \<lparr>svc_kind = Cloudinary, svc_id = 0\<rparr> ''sunset'')
     (generated (env_sharp (limited_env 4000)) (file_buffer demo_file) RESOLUTIONS)"
    by (simp only: limited_env_fields demo_file_fields limited_stored)
  have ups': "list_all (stored (limited_env 4000) (co_storageService ?co) (co_slug ?co))
     (generated (env_sharp (limited_env 4000)) (file_buffer demo_file) RESOLUTIONS)"
    using ups by simp
  have ok: "valid \<lparr>valid = True, errors = []\<rparr>" by simp
  from sweep_skips_failed_generation [of demo_request demo_file "[]" "limited_env 4000" _
      initial_world ?co "[]" 1 7 None,
      OF demo_request_fields(1) demo_request_fields(5) limited_validate ok limited_core_ok
         demo_request_fields(4) demo_request_fields(7) limited_env_fields(3) limited_env_fields(4)
         limited_env_fields(5) limited_env_fields(6) ups']
  obtain pre rows where r:
    "fst (create (limited_env 4000) demo_request initial_world) =
        Inr \<lparr>status = 201, body = CreatedBody ''Wallpaper uploaded successfully'' None\<rparr>"
    and t: "trace (snd (create (limited_env 4000) demo_request initial_world)) = pre @ [ResolutionsInsert rows]"
    and sub: "set (generation_failures (env_sharp (limited_env 4000)) (file_buffer demo_file) RESOLUTIONS) \<subseteq> set pre"
    and rn: "map rr_resolution_name rows =
        map rc_name (filter (generates (env_sharp (limited_env 4000)) (file_buffer demo_file)) RESOLUTIONS) @
        [''Original'']"
    by (elim exE conjE)
  from sub have logged: "ConsoleError ''Failed to generate 5K:'' (Error ''Processed image is too large'') \<in> set pre"
    by (simp add: fails)
  from rn have rn': "map rr_resolution_name rows =
        [''1080p'', ''1440p'', ''4K'', ''Mobile HD'', ''Mobile 2K'', ''Tablet'',
         ''Thumbnail'', ''Medium'', ''Original'']"
    by (simp add: names)
  have ex: "\<exists>pre rows.
      fst (create (limited_env 4000) demo_request initial_world) =
        Inr \<lparr>status = 201, body = CreatedBody ''Wallpaper uploaded successfully'' None\<rparr> \<and>
      trace (snd (create (limited_env 4000) demo_request initial_world)) = pre @ [ResolutionsInsert rows] \<and>
      ConsoleError ''Failed to generate 5K:'' (Error ''Processed image is too large'') \<in> set pre \<and>
      map rr_resolution_name rows =
        [''1080p'', ''1440p'', ''4K'', ''Mobile HD'', ''Mobile 2K'', ''Tablet'',
         ''Thumbnail'', ''Medium'', ''Original'']"
    by (intro exI [of _ pre] exI [of _ rows] conjI r t logged rn')
  show ?thesis by (intro conjI fails ups ex)
qed

end
